theory Spec2Isabelle
  imports Main "HOL-Library.Word"
begin

section \<open>Common data\<close>

text \<open>
  Python \<^verbatim>\<open>bytes\<close> values are lists of 8-bit words.  Python \<^verbatim>\<open>str\<close> values are
  modelled by the list of bytes of their UTF-8 encoding, so that two Python strings are
  equal exactly when their models are; every literal of the source that is not ASCII is
  written out byte by byte.
\<close>

type_synonym byte = "8 word"
type_synonym bytes = "byte list"

text \<open>
  Exceptions are values: the class of the exception and the text \<^verbatim>\<open>str(e)\<close> gives.
\<close>

datatype exc_class =
    ValueError | TypeError | FileNotFoundError | OSError | UnicodeError | LookupError
  | ConnectionError | Exception

datatype exc = Exc (exc_class: exc_class) (message: string)

text \<open>\<^verbatim>\<open>str(n)\<close> for an integer: its decimal digits, with a minus sign when negative.\<close>

definition digit_char :: "nat \<Rightarrow> char" where
  "digit_char d = ''0123456789'' ! d"

fun str_nat :: "nat \<Rightarrow> string" where
  "str_nat n = (if n < 10 then [digit_char n] else str_nat (n div 10) @ [digit_char (n mod 10)])"

declare str_nat.simps [simp del]

definition str_int :: "int \<Rightarrow> string" where
  "str_int i = (if i < 0 then CHR ''-'' # str_nat (nat (- i)) else str_nat (nat i))"

text \<open>
  \<^verbatim>\<open>sep.join(parts)\<close> for strings.
\<close>

fun join :: "string \<Rightarrow> string list \<Rightarrow> string" where
  "join sep [] = []"
| "join sep [x] = x"
| "join sep (x # y # ys) = x @ sep @ join sep (y # ys)"

section \<open>theme\_manager.py: the theme table and ThemeManager\<close>

text \<open>
  A palette is the dictionary of the eleven colour roles; every entry of \<^verbatim>\<open>THEMES\<close> has
  exactly these keys, so it is a record.  The colours are the strings of the source.
\<close>

record palette =
  PRIMARY :: string
  SECONDARY :: string
  ACCENT :: string
  LIGHT :: string
  DARK :: string
  SUCCESS :: string
  WARNING :: string
  INFO :: string
  SEND_AREA :: string
  RECEIVE_AREA :: string
  GROUP_BOX :: string

text \<open>
  The eight keys of \<^verbatim>\<open>THEMES\<close> are two-character Chinese colour names.  Each is given
  by the bytes of its UTF-8 encoding, under an English name used only in this theory:
  pink U+7C89 U+8272, cyan U+9752 U+8272, blue U+84DD U+8272, purple U+7D2B U+8272,
  red U+7EA2 U+8272, black U+9ED1 U+8272, white U+767D U+8272, green U+7EFF U+8272.
\<close>

definition name_pink :: string where
  "name_pink = [CHR 0xE7, CHR 0xB2, CHR 0x89, CHR 0xE8, CHR 0x89, CHR 0xB2]"

definition name_cyan :: string where
  "name_cyan = [CHR 0xE9, CHR 0x9D, CHR 0x92, CHR 0xE8, CHR 0x89, CHR 0xB2]"

definition name_blue :: string where
  "name_blue = [CHR 0xE8, CHR 0x93, CHR 0x9D, CHR 0xE8, CHR 0x89, CHR 0xB2]"

definition name_purple :: string where
  "name_purple = [CHR 0xE7, CHR 0xB4, CHR 0xAB, CHR 0xE8, CHR 0x89, CHR 0xB2]"

definition name_red :: string where
  "name_red = [CHR 0xE7, CHR 0xBA, CHR 0xA2, CHR 0xE8, CHR 0x89, CHR 0xB2]"

definition name_black :: string where
  "name_black = [CHR 0xE9, CHR 0xBB, CHR 0x91, CHR 0xE8, CHR 0x89, CHR 0xB2]"

definition name_white :: string where
  "name_white = [CHR 0xE7, CHR 0x99, CHR 0xBD, CHR 0xE8, CHR 0x89, CHR 0xB2]"

definition name_green :: string where
  "name_green = [CHR 0xE7, CHR 0xBB, CHR 0xBF, CHR 0xE8, CHR 0x89, CHR 0xB2]"

text \<open>The palettes, in the order of the source.\<close>

definition theme_pink :: palette where
  "theme_pink =
     \<lparr>PRIMARY = ''#F8C8DC'', SECONDARY = ''#FF69B4'', ACCENT = ''#FF1493'',
      LIGHT = ''#FFF0F5'', DARK = ''#C71585'', SUCCESS = ''#98FB98'',
      WARNING = ''#FFD700'', INFO = ''#87CEFA'', SEND_AREA = ''#FFE4E6'',
      RECEIVE_AREA = ''#FFF0F5'', GROUP_BOX = ''#FFB6C1''\<rparr>"

definition theme_cyan :: palette where
  "theme_cyan =
     \<lparr>PRIMARY = ''#E0FFFF'', SECONDARY = ''#00CED1'', ACCENT = ''#008B8B'',
      LIGHT = ''#E0FFFF'', DARK = ''#008B8B'', SUCCESS = ''#98FB98'',
      WARNING = ''#FFD700'', INFO = ''#87CEFA'', SEND_AREA = ''#E0FFFF'',
      RECEIVE_AREA = ''#E0FFFF'', GROUP_BOX = ''#AFEEEE''\<rparr>"

definition theme_blue :: palette where
  "theme_blue =
     \<lparr>PRIMARY = ''#E6EEF7'', SECONDARY = ''#4682B4'', ACCENT = ''#1E3A8A'',
      LIGHT = ''#F0F8FF'', DARK = ''#0A2463'', SUCCESS = ''#98FB98'',
      WARNING = ''#FFD700'', INFO = ''#87CEFA'', SEND_AREA = ''#E6EEF7'',
      RECEIVE_AREA = ''#F0F8FF'', GROUP_BOX = ''#B0C4DE''\<rparr>"

definition theme_purple :: palette where
  "theme_purple =
     \<lparr>PRIMARY = ''#E6E6FA'', SECONDARY = ''#9370DB'', ACCENT = ''#483D8B'',
      LIGHT = ''#F8F8FF'', DARK = ''#483D8B'', SUCCESS = ''#98FB98'',
      WARNING = ''#FFD700'', INFO = ''#87CEFA'', SEND_AREA = ''#E6E6FA'',
      RECEIVE_AREA = ''#F8F8FF'', GROUP_BOX = ''#DDA0DD''\<rparr>"

definition theme_red :: palette where
  "theme_red =
     \<lparr>PRIMARY = ''#FFE4E1'', SECONDARY = ''#CD5C5C'', ACCENT = ''#8B0000'',
      LIGHT = ''#FFF5F5'', DARK = ''#8B0000'', SUCCESS = ''#98FB98'',
      WARNING = ''#FFD700'', INFO = ''#87CEFA'', SEND_AREA = ''#FFE4E1'',
      RECEIVE_AREA = ''#FFF5F5'', GROUP_BOX = ''#F08080''\<rparr>"

definition theme_black :: palette where
  "theme_black =
     \<lparr>PRIMARY = ''#2C2C2C'', SECONDARY = ''#4A4A4A'', ACCENT = ''#708090'',
      LIGHT = ''#1A1A1A'', DARK = ''#F0F0F0'', SUCCESS = ''#00FF00'',
      WARNING = ''#FFFF00'', INFO = ''#1E90FF'', SEND_AREA = ''#2C2C2C'',
      RECEIVE_AREA = ''#1A1A1A'', GROUP_BOX = ''#4A4A4A''\<rparr>"

definition theme_white :: palette where
  "theme_white =
     \<lparr>PRIMARY = ''#FFFFFF'', SECONDARY = ''#F0F0F0'', ACCENT = ''#C0C0C0'',
      LIGHT = ''#FFFFFF'', DARK = ''#000000'', SUCCESS = ''#008000'',
      WARNING = ''#FFA500'', INFO = ''#0000FF'', SEND_AREA = ''#FFFFFF'',
      RECEIVE_AREA = ''#FFFFFF'', GROUP_BOX = ''#F0F0F0''\<rparr>"

definition theme_green :: palette where
  "theme_green =
     \<lparr>PRIMARY = ''#E8F5E9'', SECONDARY = ''#4CAF50'', ACCENT = ''#2E7D32'',
      LIGHT = ''#F1F8E9'', DARK = ''#1B5E20'', SUCCESS = ''#81C784'',
      WARNING = ''#FFD700'', INFO = ''#87CEFA'', SEND_AREA = ''#E8F5E9'',
      RECEIVE_AREA = ''#F1F8E9'', GROUP_BOX = ''#C8E6C9''\<rparr>"

text \<open>
  \<^verbatim>\<open>THEMES\<close> is a dictionary literal; it is kept as an association list in the order
  of declaration, which is the order \<^verbatim>\<open>get_all_themes\<close> returns.
\<close>

definition THEMES :: "(string \<times> palette) list" where
  "THEMES =
     [(name_pink, theme_pink), (name_cyan, theme_cyan), (name_blue, theme_blue),
      (name_purple, theme_purple), (name_red, theme_red), (name_black, theme_black),
      (name_white, theme_white), (name_green, theme_green)]"

text \<open>
  The module-level variable \<^verbatim>\<open>current_theme\<close> is the only state; it starts as
  \<^verbatim>\<open>THEMES\<close> at the blue key.
\<close>

definition initial_current_theme :: palette where
  "initial_current_theme = theme_blue"

text \<open>
  \<^verbatim>\<open>get_theme(name=None)\<close>: the test \<^verbatim>\<open>if name\<close> fails for \<^verbatim>\<open>None\<close> and for the
  empty string; otherwise \<^verbatim>\<open>THEMES.get(name, current_theme)\<close>.
\<close>

definition get_theme :: "string option \<Rightarrow> palette \<Rightarrow> palette" where
  "get_theme name current_theme =
     (case name of
        None \<Rightarrow> current_theme
      | Some n \<Rightarrow>
          if n \<noteq> [] then (case map_of THEMES n of Some p \<Rightarrow> p | None \<Rightarrow> current_theme)
          else current_theme)"

text \<open>
  \<^verbatim>\<open>set_theme(name)\<close> returns its result and the new value of \<^verbatim>\<open>current_theme\<close>.
\<close>

definition set_theme :: "string \<Rightarrow> palette \<Rightarrow> bool \<times> palette" where
  "set_theme name current_theme =
     (case map_of THEMES name of
        Some p \<Rightarrow> (True, p)
      | None \<Rightarrow> (False, current_theme))"

definition get_all_themes :: "string list" where
  "get_all_themes = map fst THEMES"

text \<open>
  The palette table as the specification prints it: one row per theme, the colours in the
  order PRIMARY, SECONDARY, ACCENT, LIGHT, DARK, SUCCESS, WARNING, INFO, SEND\_AREA,
  RECEIVE\_AREA, GROUP\_BOX.  The specification lists blue first (the default) and names
  the themes in English; the rows are keyed here by the source's names.
\<close>

definition spec_palette_table :: "(string \<times> string list) list" where
  "spec_palette_table =

     [(name_blue,
       [''#E6EEF7'', ''#4682B4'', ''#1E3A8A'', ''#F0F8FF'', ''#0A2463'', ''#98FB98'',
        ''#FFD700'', ''#87CEFA'', ''#E6EEF7'', ''#F0F8FF'', ''#B0C4DE'']),
      (name_pink,
       [''#F8C8DC'', ''#FF69B4'', ''#FF1493'', ''#FFF0F5'', ''#C71585'', ''#98FB98'',
        ''#FFD700'', ''#87CEFA'', ''#FFE4E6'', ''#FFF0F5'', ''#FFB6C1'']),
      (name_cyan,
       [''#E0FFFF'', ''#00CED1'', ''#008B8B'', ''#E0FFFF'', ''#008B8B'', ''#98FB98'',
        ''#FFD700'', ''#87CEFA'', ''#E0FFFF'', ''#E0FFFF'', ''#AFEEEE'']),
      (name_purple,
       [''#E6E6FA'', ''#9370DB'', ''#483D8B'', ''#F8F8FF'', ''#483D8B'', ''#98FB98'',
        ''#FFD700'', ''#87CEFA'', ''#E6E6FA'', ''#F8F8FF'', ''#DDA0DD'']),
      (name_red,
       [''#FFE4E1'', ''#CD5C5C'', ''#8B0000'', ''#FFF5F5'', ''#8B0000'', ''#98FB98'',
        ''#FFD700'', ''#87CEFA'', ''#FFE4E1'', ''#FFF5F5'', ''#F08080'']),
      (name_black,
       [''#2C2C2C'', ''#4A4A4A'', ''#708090'', ''#1A1A1A'', ''#F0F0F0'', ''#00FF00'',
        ''#FFFF00'', ''#1E90FF'', ''#2C2C2C'', ''#1A1A1A'', ''#4A4A4A'']),
      (name_white,
       [''#FFFFFF'', ''#F0F0F0'', ''#C0C0C0'', ''#FFFFFF'', ''#000000'', ''#008000'',
        ''#FFA500'', ''#0000FF'', ''#FFFFFF'', ''#FFFFFF'', ''#F0F0F0'']),
      (name_green,
       [''#E8F5E9'', ''#4CAF50'', ''#2E7D32'', ''#F1F8E9'', ''#1B5E20'', ''#81C784'',
        ''#FFD700'', ''#87CEFA'', ''#E8F5E9'', ''#F1F8E9'', ''#C8E6C9''])]"


definition roles :: "palette \<Rightarrow> string list" where
  "roles p =
     [PRIMARY p, SECONDARY p, ACCENT p, LIGHT p, DARK p, SUCCESS p, WARNING p, INFO p,
      SEND_AREA p, RECEIVE_AREA p, GROUP_BOX p]"

section \<open>Hexadecimal rendering and parsing\<close>

text \<open>
  The format specification \<^verbatim>\<open>02X\<close> applied to a byte gives its two upper-case
  hexadecimal digits; both indices below are less than 16.
\<close>

definition hex_upper :: "nat \<Rightarrow> char" where
  "hex_upper d = ''0123456789ABCDEF'' ! d"

definition format_02X :: "byte \<Rightarrow> string" where
  "format_02X b = [hex_upper (unat b div 16), hex_upper (unat b mod 16)]"

text \<open>
  \<^verbatim>\<open>bytes.hex()\<close> gives two lower-case digits for each byte, with no separator.
\<close>

definition hex_lower :: "nat \<Rightarrow> char" where
  "hex_lower d = ''0123456789abcdef'' ! d"

definition bytes_hex :: "bytes \<Rightarrow> string" where
  "bytes_hex bs = concat (map (\<lambda>b. [hex_lower (unat b div 16), hex_lower (unat b mod 16)]) bs)"

text \<open>
  \<^verbatim>\<open>bytes.fromhex(s)\<close> (Python 3.7 and later): ASCII white space before a pair of
  digits is skipped, a pair is two hexadecimal digits of either case with nothing between
  them, anything else raises \<^verbatim>\<open>ValueError\<close>.  The message of the interpreter also names
  the position of the offending character, which is left out here.
\<close>

definition is_ascii_space :: "char \<Rightarrow> bool" where
  "is_ascii_space c = (of_char c \<in> {9, 10, 11, 12, 13, 32 :: nat})"

definition hex_digit_value :: "char \<Rightarrow> nat option" where
  "hex_digit_value c =
     (let n = of_char c :: nat in
      if 48 \<le> n \<and> n \<le> 57 then Some (n - 48)
      else if 65 \<le> n \<and> n \<le> 70 then Some (n - 55)
      else if 97 \<le> n \<and> n \<le> 102 then Some (n - 87)
      else None)"

definition fromhex_error :: exc where
  "fromhex_error = Exc ValueError ''non-hexadecimal number found in fromhex() arg''"

fun fromhex :: "string \<Rightarrow> exc + bytes" where
  "fromhex [] = Inr []"
| "fromhex (c # cs) =
     (if is_ascii_space c then fromhex cs
      else case hex_digit_value c of
        None \<Rightarrow> Inl fromhex_error
      | Some hi \<Rightarrow>
          (case cs of
             [] \<Rightarrow> Inl fromhex_error
           | d # ds \<Rightarrow>
               (case hex_digit_value d of
                  None \<Rightarrow> Inl fromhex_error
                | Some lo \<Rightarrow>
                    (case fromhex ds of
                       Inl e \<Rightarrow> Inl e
                     | Inr bs \<Rightarrow> Inr (of_nat (hi * 16 + lo) # bs)))))"

section \<open>The three copies of the receive formatting\<close>

text \<open>
  \<^verbatim>\<open>data.decode(encoding, errors=error_handling)\<close> belongs to the Python library; it is
  the parameter \<open>decode\<close> of everything below: given the codec name, the error policy
  and the bytes it returns the text or the exception raised.
\<close>

type_synonym decoder = "string \<Rightarrow> string \<Rightarrow> bytes \<Rightarrow> exc + string"

text \<open>
  main\_app.py, \<^verbatim>\<open>SerialMonitor._format_data(raw_data, hex_mode, encoding, error_handling)\<close>.
\<close>

definition format_data :: "decoder \<Rightarrow> bytes \<Rightarrow> bool \<Rightarrow> string \<Rightarrow> string \<Rightarrow> exc + string" where
  "format_data decode raw_data hex_mode encoding error_handling =
     (if hex_mode then Inr (join '' '' (map format_02X raw_data) @ '' '')
      else decode encoding error_handling raw_data)"

text \<open>
  The settings both receive workers hold (\<^verbatim>\<open>hex_mode\<close>, \<^verbatim>\<open>encoding\<close>,
  \<^verbatim>\<open>error_handling\<close>), set at construction and by \<^verbatim>\<open>update_settings\<close>.
\<close>

record worker =
  hex_mode :: bool
  encoding :: string
  error_handling :: string

definition update_settings :: "bool option \<Rightarrow> string option \<Rightarrow> string option \<Rightarrow> worker \<Rightarrow> worker" where
  "update_settings hm enc eh w =
     (let w1 = (case hm of None \<Rightarrow> w | Some v \<Rightarrow> w\<lparr>hex_mode := v\<rparr>);
          w2 = (case enc of None \<Rightarrow> w1 | Some v \<Rightarrow> w1\<lparr>encoding := v\<rparr>)
      in (case eh of None \<Rightarrow> w2 | Some v \<Rightarrow> w2\<lparr>error_handling := v\<rparr>))"

text \<open>The signals the workers emit.\<close>

datatype signal =
    data_received string
  | raw_data_received bytes
  | error_occurred string

text \<open>The prefix of the error text of both workers (U+63A5 U+6536 U+9519 U+8BEF, colon, space).\<close>

definition receive_error_prefix :: string where
  "receive_error_prefix =
     [CHR 0xE6, CHR 0x8E, CHR 0xA5, CHR 0xE6, CHR 0x94, CHR 0xB6, CHR 0xE9, CHR 0x94, CHR 0x99,
      CHR 0xE8, CHR 0xAF, CHR 0xAF, CHR '':'', CHR '' '']"

text \<open>
  serial\_threads.py, \<^verbatim>\<open>SerialThread.run\<close>, lines 26 to 31: the text made from the bytes
  read.
\<close>

definition SerialThread_text :: "decoder \<Rightarrow> worker \<Rightarrow> bytes \<Rightarrow> exc + string" where
  "SerialThread_text decode self data =
     (if hex_mode self then Inr (join '' '' (map format_02X data) @ '' '')
      else decode (encoding self) (error_handling self) data)"

text \<open>
  One pass through the body of the loop of \<^verbatim>\<open>SerialThread.run\<close>.  The argument is what the
  port gives in this pass: the bytes waiting (\<^verbatim>\<open>in_waiting\<close> is their number, and the
  read takes them all) or the exception a port operation raises.  The result is the signals
  emitted and whether the loop goes on.
\<close>

definition SerialThread_pass :: "decoder \<Rightarrow> worker \<Rightarrow> exc + bytes \<Rightarrow> signal list \<times> bool" where
  "SerialThread_pass decode self port =
     (case port of
        Inl e \<Rightarrow> ([error_occurred (receive_error_prefix @ message e)], False)
      | Inr waiting \<Rightarrow>
          if length waiting \<noteq> 0 then
            (case SerialThread_text decode self waiting of
               Inl e \<Rightarrow> ([error_occurred (receive_error_prefix @ message e)], False)
             | Inr text \<Rightarrow> ([data_received text], True))
          else ([], True))"

text \<open>
  connection\_manager.py, \<^verbatim>\<open>DataReceiveThread.run\<close>, lines 433 to 438.
\<close>

definition DataReceiveThread_text :: "decoder \<Rightarrow> worker \<Rightarrow> bytes \<Rightarrow> exc + string" where
  "DataReceiveThread_text decode self data =
     (if hex_mode self then Inr (join '' '' (map format_02X data) @ '' '')
      else decode (encoding self) (error_handling self) data)"

text \<open>
  One pass through the body of the loop of \<^verbatim>\<open>DataReceiveThread.run\<close>; the argument is
  the outcome of \<^verbatim>\<open>self.connection.receive()\<close>.  The raw bytes are emitted before the text
  is made.
\<close>

definition DataReceiveThread_pass :: "decoder \<Rightarrow> worker \<Rightarrow> exc + bytes \<Rightarrow> signal list \<times> bool" where
  "DataReceiveThread_pass decode self received =
     (case received of
        Inl e \<Rightarrow> ([error_occurred (receive_error_prefix @ message e)], False)
      | Inr data \<Rightarrow>
          if data \<noteq> [] then
            (case DataReceiveThread_text decode self data of
               Inl e \<Rightarrow>
                 ([raw_data_received data, error_occurred (receive_error_prefix @ message e)], False)
             | Inr text \<Rightarrow> ([raw_data_received data, data_received text], True))
          else ([], True))"

text \<open>
  main\_app.py, \<^verbatim>\<open>SerialMonitor.send_data\<close>, lines 1574 to 1585: the bytes to send.  In
  hexadecimal mode every space character is removed and the rest is parsed as pairs of
  digits; otherwise the text, with carriage return and line feed appended when asked for,
  is encoded with the policy \<^verbatim>\<open>replace\<close>.  \<^verbatim>\<open>str.encode\<close> is the parameter \<open>encode\<close>.
\<close>

type_synonym encoder = "string \<Rightarrow> string \<Rightarrow> string \<Rightarrow> exc + bytes"

definition send_bytes :: "encoder \<Rightarrow> bool \<Rightarrow> string \<Rightarrow> bool \<Rightarrow> string \<Rightarrow> exc + bytes" where
  "send_bytes encode hex_send_check send_encoding append_newline_check data =
     (if hex_send_check then fromhex (filter (\<lambda>c. c \<noteq> CHR '' '') data)
      else encode send_encoding ''replace''
             (if append_newline_check then data @ [CHR 0x0D, CHR 0x0A] else data))"

text \<open>
  A decoder to run the definitions with: Python's \<^verbatim>\<open>ascii\<close> codec.  A byte below 128 is
  the character of that number.  For any other byte the policy decides: \<^verbatim>\<open>strict\<close>
  raises, \<^verbatim>\<open>ignore\<close> drops the byte, \<^verbatim>\<open>replace\<close> puts U+FFFD (in UTF-8 the bytes
  EF BF BD); an unknown policy name raises \<^verbatim>\<open>LookupError\<close> at the first such byte.
\<close>

fun decode_ascii :: "string \<Rightarrow> bytes \<Rightarrow> exc + string" where
  "decode_ascii errors [] = Inr []"
| "decode_ascii errors (b # bs) =
     (if unat b < 128 then
        (case decode_ascii errors bs of Inl e \<Rightarrow> Inl e | Inr s \<Rightarrow> Inr (char_of (unat b) # s))
      else if errors = ''strict'' then
        Inl (Exc UnicodeError ''ascii codec can not decode byte: ordinal not in range(128)'')
      else if errors = ''ignore'' then decode_ascii errors bs
      else if errors = ''replace'' then
        (case decode_ascii errors bs of
           Inl e \<Rightarrow> Inl e
         | Inr s \<Rightarrow> Inr ([CHR 0xEF, CHR 0xBF, CHR 0xBD] @ s))
      else Inl (Exc LookupError (''unknown error handler name '' @ errors)))"

definition ascii_decoder :: decoder where
  "ascii_decoder codec errors data = decode_ascii errors data"

section \<open>connection\_manager.py: the connection classes\<close>

text \<open>
  The values that arrive as constructor arguments: strings, integers, booleans and
  \<^verbatim>\<open>None\<close>.  \<open>py_str\<close> is \<^verbatim>\<open>str(v)\<close>, which is also what an f-string puts for
  \<^verbatim>\<open>{v}\<close>; \<open>truthy\<close> is the truth value of \<^verbatim>\<open>v\<close> in a condition.
\<close>

datatype pyval = PNone | PBool bool | PInt int | PStr string

fun py_str :: "pyval \<Rightarrow> string" where
  "py_str PNone = ''None''"
| "py_str (PBool b) = (if b then ''True'' else ''False'')"
| "py_str (PInt i) = str_int i"
| "py_str (PStr s) = s"

fun truthy :: "pyval \<Rightarrow> bool" where
  "truthy PNone = False"
| "truthy (PBool b) = b"
| "truthy (PInt i) = (i \<noteq> 0)"
| "truthy (PStr s) = (s \<noteq> [])"

text \<open>
  Sockets and threads are objects of the library.  A socket is known by its identity; a
  serial port object and a thread carry the one flag the classes read (\<^verbatim>\<open>is_open\<close>,
  \<^verbatim>\<open>is_alive()\<close>).  An object of these kinds is always truthy, so a test such as
  \<^verbatim>\<open>if self.socket\<close> asks whether the attribute is not \<^verbatim>\<open>None\<close>.
\<close>

type_synonym sock = nat

datatype serial = Serial (is_open: bool)

datatype thread = Thread (is_alive: bool)

text \<open>
  What a method does to the world outside the object is returned as the list of the
  library calls it makes, in order.  \<^verbatim>\<open>close\<close> on a socket or a serial port is taken to
  return normally.
\<close>

datatype action =
    serial_close
  | sock_close sock
  | sock_send sock bytes
  | sock_setblocking sock bool
  | sock_recv sock nat
  | thread_join

text \<open>
  The base class \<^verbatim>\<open>Connection\<close> and its subclasses, as a record and its extensions.
  The attribute \<^verbatim>\<open>socket\<close> of the TCP, UDP and Bluetooth classes and the attribute
  \<^verbatim>\<open>port\<close> of the TCP and Bluetooth classes get the class as a prefix.
\<close>

record connection =
  is_connected :: bool
  connection_type :: string
  settings :: "(string \<times> pyval) list"

record serial_connection = connection +
  port_name :: pyval
  baudrate :: pyval
  databits :: pyval
  parity :: pyval
  stopbits :: pyval
  serial_port :: "serial option"

record tcp_connection = connection +
  host :: pyval
  tcp_port :: pyval
  is_server :: pyval
  tcp_socket :: "sock option"
  client_socket :: "sock option"
  server_thread :: "thread option"

record udp_connection = connection +
  local_host :: pyval
  local_port :: pyval
  remote_host :: pyval
  remote_port :: pyval
  udp_socket :: "sock option"

record bluetooth_connection = connection +
  address :: pyval
  bluetooth_port :: pyval
  bluetooth_socket :: "sock option"
  bluetooth_available :: bool

text \<open>
  An object of one of the six concrete classes.  \<^verbatim>\<open>WiFiConnection\<close> and
  \<^verbatim>\<open>EthernetConnection\<close> are subclasses of \<^verbatim>\<open>TCPConnection\<close> that override the type
  label and \<^verbatim>\<open>get_info\<close> only.
\<close>

datatype connection_obj =
    OfSerial serial_connection
  | OfTCP tcp_connection
  | OfUDP udp_connection
  | OfWiFi tcp_connection
  | OfEthernet tcp_connection
  | OfBluetooth bluetooth_connection

subsection \<open>Constructors\<close>

definition SerialConnection :: "pyval \<Rightarrow> pyval \<Rightarrow> pyval \<Rightarrow> pyval \<Rightarrow> pyval \<Rightarrow> serial_connection" where
  "SerialConnection pn br db pa sb =
     \<lparr>is_connected = False, connection_type = ''Serial'', settings = [],
      port_name = pn, baudrate = br, databits = db, parity = pa, stopbits = sb,
      serial_port = None\<rparr>"

definition TCPConnection :: "pyval \<Rightarrow> pyval \<Rightarrow> pyval \<Rightarrow> tcp_connection" where
  "TCPConnection h p srv =
     \<lparr>is_connected = False, connection_type = ''TCP'', settings = [],
      host = h, tcp_port = p, is_server = srv,
      tcp_socket = None, client_socket = None, server_thread = None\<rparr>"

definition UDPConnection :: "pyval \<Rightarrow> pyval \<Rightarrow> pyval \<Rightarrow> pyval \<Rightarrow> udp_connection" where
  "UDPConnection lh lp rh rp =
     \<lparr>is_connected = False, connection_type = ''UDP'', settings = [],
      local_host = lh, local_port = lp, remote_host = rh, remote_port = rp,
      udp_socket = None\<rparr>"

definition WiFiConnection :: "pyval \<Rightarrow> pyval \<Rightarrow> pyval \<Rightarrow> tcp_connection" where
  "WiFiConnection h p srv = (TCPConnection h p srv)\<lparr>connection_type := ''WiFi''\<rparr>"

definition EthernetConnection :: "pyval \<Rightarrow> pyval \<Rightarrow> pyval \<Rightarrow> tcp_connection" where
  "EthernetConnection h p srv = (TCPConnection h p srv)\<lparr>connection_type := ''Ethernet''\<rparr>"

text \<open>
  The constructor of \<^verbatim>\<open>BluetoothConnection\<close> makes a \<^verbatim>\<open>BluetoothManager\<close>, whose only
  attribute read later is whether a Bluetooth library could be imported; that is the first
  argument here.
\<close>

definition BluetoothConnection :: "bool \<Rightarrow> pyval \<Rightarrow> pyval \<Rightarrow> bluetooth_connection" where
  "BluetoothConnection available a p =
     \<lparr>is_connected = False, connection_type = ''Bluetooth'', settings = [],
      address = a, bluetooth_port = p, bluetooth_socket = None,
      bluetooth_available = available\<rparr>"

subsection \<open>\<^verbatim>\<open>get_info\<close>\<close>

text \<open>
  The Chinese words of the display strings, as UTF-8: serial port (U+4E32 U+53E3), the
  full-width comma followed by baud rate (U+FF0C U+6CE2 U+7279 U+7387), server
  (U+670D U+52A1 U+5668), client (U+5BA2 U+6237 U+7AEF), Ethernet (U+4EE5 U+592A U+7F51),
  Bluetooth (U+84DD U+7259).
\<close>

definition word_serial_port :: string where
  "word_serial_port = [CHR 0xE4, CHR 0xB8, CHR 0xB2, CHR 0xE5, CHR 0x8F, CHR 0xA3]"

definition word_comma_baud_rate :: string where
  "word_comma_baud_rate =
     [CHR 0xEF, CHR 0xBC, CHR 0x8C, CHR 0xE6, CHR 0xB3, CHR 0xA2, CHR 0xE7, CHR 0x89, CHR 0xB9,
      CHR 0xE7, CHR 0x8E, CHR 0x87]"

definition word_server :: string where
  "word_server = [CHR 0xE6, CHR 0x9C, CHR 0x8D, CHR 0xE5, CHR 0x8A, CHR 0xA1, CHR 0xE5, CHR 0x99, CHR 0xA8]"

definition word_client :: string where
  "word_client = [CHR 0xE5, CHR 0xAE, CHR 0xA2, CHR 0xE6, CHR 0x88, CHR 0xB7, CHR 0xE7, CHR 0xAB, CHR 0xAF]"

definition word_ethernet :: string where
  "word_ethernet = [CHR 0xE4, CHR 0xBB, CHR 0xA5, CHR 0xE5, CHR 0xA4, CHR 0xAA, CHR 0xE7, CHR 0xBD, CHR 0x91]"

definition word_bluetooth :: string where
  "word_bluetooth = [CHR 0xE8, CHR 0x93, CHR 0x9D, CHR 0xE7, CHR 0x89, CHR 0x99]"

definition Serial_get_info :: "serial_connection \<Rightarrow> string" where
  "Serial_get_info self =
     word_serial_port @ '' '' @ py_str (port_name self) @ word_comma_baud_rate @ '' ''
       @ py_str (baudrate self)"

definition tcp_mode :: "tcp_connection \<Rightarrow> string" where
  "tcp_mode self = (if truthy (is_server self) then word_server else word_client)"

definition TCP_get_info :: "tcp_connection \<Rightarrow> string" where
  "TCP_get_info self =
     ''TCP '' @ tcp_mode self @ '' '' @ py_str (host self) @ '':'' @ py_str (tcp_port self)"

definition WiFi_get_info :: "tcp_connection \<Rightarrow> string" where
  "WiFi_get_info self =
     ''WiFi '' @ tcp_mode self @ '' '' @ py_str (host self) @ '':'' @ py_str (tcp_port self)"

definition Ethernet_get_info :: "tcp_connection \<Rightarrow> string" where
  "Ethernet_get_info self =
     word_ethernet @ '' '' @ tcp_mode self @ '' '' @ py_str (host self) @ '':''
       @ py_str (tcp_port self)"

definition UDP_get_info :: "udp_connection \<Rightarrow> string" where
  "UDP_get_info self =
     (if truthy (remote_host self) \<and> truthy (remote_port self) then
        ''UDP '' @ py_str (local_host self) @ '':'' @ py_str (local_port self) @ '' -> ''
          @ py_str (remote_host self) @ '':'' @ py_str (remote_port self)
      else ''UDP '' @ py_str (local_host self) @ '':'' @ py_str (local_port self))"

definition Bluetooth_get_info :: "bluetooth_connection \<Rightarrow> string" where
  "Bluetooth_get_info self =
     word_bluetooth @ '' '' @ py_str (address self) @ '':'' @ py_str (bluetooth_port self)"

fun get_info :: "connection_obj \<Rightarrow> string" where
  "get_info (OfSerial c) = Serial_get_info c"
| "get_info (OfTCP c) = TCP_get_info c"
| "get_info (OfUDP c) = UDP_get_info c"
| "get_info (OfWiFi c) = WiFi_get_info c"
| "get_info (OfEthernet c) = Ethernet_get_info c"
| "get_info (OfBluetooth c) = Bluetooth_get_info c"

subsection \<open>\<^verbatim>\<open>SerialConnection.connect\<close> and the \<^verbatim>\<open>disconnect\<close> methods\<close>










subsection \<open>\<^verbatim>\<open>TCPConnection.send\<close> and \<^verbatim>\<open>TCPConnection.receive\<close>\<close>

text \<open>
  What the sockets do is given by two functions: the outcome of \<^verbatim>\<open>send(data)\<close> on a
  socket and the outcome of \<^verbatim>\<open>recv(4096)\<close> on a socket set to non-blocking.
\<close>

record sockets =
  send_outcome :: "sock \<Rightarrow> bytes \<Rightarrow> exc + nat"
  recv_outcome :: "sock \<Rightarrow> exc + bytes"

definition TCP_send :: "sockets \<Rightarrow> tcp_connection \<Rightarrow> bytes \<Rightarrow> (exc + nat) \<times> action list" where
  "TCP_send os self data =
     (if truthy (is_server self) \<and> client_socket self \<noteq> None then
        (case client_socket self of
           Some c \<Rightarrow> (send_outcome os c data, [sock_send c data])
         | None \<Rightarrow> (Inr 0, []))
      else if \<not> truthy (is_server self) \<and> tcp_socket self \<noteq> None then
        (case tcp_socket self of
           Some s \<Rightarrow> (send_outcome os s data, [sock_send s data])
         | None \<Rightarrow> (Inr 0, []))
      else (Inr 0, []))"

text \<open>
  \<^verbatim>\<open>receive\<close> catches every exception of the two socket calls and returns the empty
  bytes then.
\<close>

definition recv_nonblocking :: "sockets \<Rightarrow> sock \<Rightarrow> (exc + bytes) \<times> action list" where
  "recv_nonblocking os s =
     ((case recv_outcome os s of Inl e \<Rightarrow> Inr [] | Inr data \<Rightarrow> Inr data),
      [sock_setblocking s False, sock_recv s 4096])"

definition TCP_receive :: "sockets \<Rightarrow> tcp_connection \<Rightarrow> (exc + bytes) \<times> action list" where
  "TCP_receive os self =
     (if truthy (is_server self) \<and> client_socket self \<noteq> None then
        (case client_socket self of
           Some c \<Rightarrow> recv_nonblocking os c
         | None \<Rightarrow> (Inr [], []))
      else if \<not> truthy (is_server self) \<and> tcp_socket self \<noteq> None then
        (case tcp_socket self of
           Some s \<Rightarrow> recv_nonblocking os s
         | None \<Rightarrow> (Inr [], []))
      else (Inr [], []))"

section \<open>connection\_manager.py: ConnectionManager\<close>

text \<open>
  Keyword arguments are an association list.  A call fails with \<^verbatim>\<open>TypeError\<close> when a
  keyword is not a parameter of the constructor or a parameter without default is missing.
\<close>

type_synonym kwargs = "(string \<times> pyval) list"

definition bind_error :: exc where
  "bind_error = Exc TypeError ''__init__() got an unexpected or is missing a required argument''"

definition binds :: "string list \<Rightarrow> (string \<times> pyval) list \<Rightarrow> kwargs \<Rightarrow> bool" where
  "binds required optional kw =
     ((\<forall>k \<in> set (map fst kw). k \<in> set required \<or> k \<in> set (map fst optional)) \<and>
      (\<forall>r \<in> set required. r \<in> set (map fst kw)))"

definition arg :: "(string \<times> pyval) list \<Rightarrow> kwargs \<Rightarrow> string \<Rightarrow> pyval" where
  "arg optional kw name =
     (case map_of kw name of
        Some v \<Rightarrow> v
      | None \<Rightarrow> (case map_of optional name of Some d \<Rightarrow> d | None \<Rightarrow> PNone))"

text \<open>
  The six classes called with keyword arguments.  The default of \<^verbatim>\<open>parity\<close> is
  \<^verbatim>\<open>serial.PARITY_NONE\<close>, the string N.  The first argument is whether a Bluetooth
  library can be imported.
\<close>

definition serial_defaults :: "(string \<times> pyval) list" where
  "serial_defaults = [(''databits'', PInt 8), (''parity'', PStr ''N''), (''stopbits'', PInt 1)]"

definition tcp_defaults :: "(string \<times> pyval) list" where
  "tcp_defaults = [(''is_server'', PBool False)]"

definition udp_defaults :: "(string \<times> pyval) list" where
  "udp_defaults = [(''remote_host'', PNone), (''remote_port'', PNone)]"

definition bluetooth_defaults :: "(string \<times> pyval) list" where
  "bluetooth_defaults = [(''port'', PInt 1)]"

definition new_serial :: "bool \<Rightarrow> kwargs \<Rightarrow> exc + connection_obj" where
  "new_serial bt kw =
     (if binds [''port_name'', ''baudrate''] serial_defaults kw then
        Inr (OfSerial (SerialConnection
          (arg serial_defaults kw ''port_name'') (arg serial_defaults kw ''baudrate'')
          (arg serial_defaults kw ''databits'') (arg serial_defaults kw ''parity'')
          (arg serial_defaults kw ''stopbits'')))
      else Inl bind_error)"

definition new_tcp :: "bool \<Rightarrow> kwargs \<Rightarrow> exc + connection_obj" where
  "new_tcp bt kw =
     (if binds [''host'', ''port''] tcp_defaults kw then
        Inr (OfTCP (TCPConnection
          (arg tcp_defaults kw ''host'') (arg tcp_defaults kw ''port'')
          (arg tcp_defaults kw ''is_server'')))
      else Inl bind_error)"

definition new_udp :: "bool \<Rightarrow> kwargs \<Rightarrow> exc + connection_obj" where
  "new_udp bt kw =
     (if binds [''local_host'', ''local_port''] udp_defaults kw then
        Inr (OfUDP (UDPConnection
          (arg udp_defaults kw ''local_host'') (arg udp_defaults kw ''local_port'')
          (arg udp_defaults kw ''remote_host'') (arg udp_defaults kw ''remote_port'')))
      else Inl bind_error)"

definition new_wifi :: "bool \<Rightarrow> kwargs \<Rightarrow> exc + connection_obj" where
  "new_wifi bt kw =
     (if binds [''host'', ''port''] tcp_defaults kw then
        Inr (OfWiFi (WiFiConnection
          (arg tcp_defaults kw ''host'') (arg tcp_defaults kw ''port'')
          (arg tcp_defaults kw ''is_server'')))
      else Inl bind_error)"

definition new_ethernet :: "bool \<Rightarrow> kwargs \<Rightarrow> exc + connection_obj" where
  "new_ethernet bt kw =
     (if binds [''host'', ''port''] tcp_defaults kw then
        Inr (OfEthernet (EthernetConnection
          (arg tcp_defaults kw ''host'') (arg tcp_defaults kw ''port'')
          (arg tcp_defaults kw ''is_server'')))
      else Inl bind_error)"

definition new_bluetooth :: "bool \<Rightarrow> kwargs \<Rightarrow> exc + connection_obj" where
  "new_bluetooth bt kw =
     (if binds [''address''] bluetooth_defaults kw then
        Inr (OfBluetooth (BluetoothConnection bt
          (arg bluetooth_defaults kw ''address'') (arg bluetooth_defaults kw ''port'')))
      else Inl bind_error)"

text \<open>
  The parameters of the constructor of each class, under the key the class has in
  \<^verbatim>\<open>connection_types\<close>: the names of those without a default, and those with a default
  together with it.
\<close>

definition constructor_parameters :: "(string \<times> string list \<times> (string \<times> pyval) list) list" where
  "constructor_parameters =
     [(''serial'', [''port_name'', ''baudrate''], serial_defaults),
      (''tcp'', [''host'', ''port''], tcp_defaults),
      (''udp'', [''local_host'', ''local_port''], udp_defaults),
      (''wifi'', [''host'', ''port''], tcp_defaults),
      (''ethernet'', [''host'', ''port''], tcp_defaults),
      (''bluetooth'', [''address''], bluetooth_defaults)]"

text \<open>The dictionary \<^verbatim>\<open>connection_types\<close> of \<^verbatim>\<open>create_connection\<close>.\<close>

definition connection_types :: "(string \<times> (bool \<Rightarrow> kwargs \<Rightarrow> exc + connection_obj)) list" where
  "connection_types =
     [(''serial'', new_serial), (''tcp'', new_tcp), (''udp'', new_udp),
      (''wifi'', new_wifi), (''ethernet'', new_ethernet), (''bluetooth'', new_bluetooth)]"

text \<open>
  \<^verbatim>\<open>str.lower()\<close>.  The upper-case ASCII letters are mapped to lower case and every other
  byte is kept.  Python also changes characters outside ASCII, but it maps none of them to
  an ASCII letter other than k (from U+212A), and no key of \<^verbatim>\<open>connection_types\<close> has a
  k; the lowered name is used for nothing but the look-up in that dictionary, whose result
  is therefore the same.
\<close>

definition lower_char :: "char \<Rightarrow> char" where
  "lower_char c =
     (let n = of_char c :: nat in if 65 \<le> n \<and> n \<le> 90 then char_of (n + 32) else c)"

definition lower :: "string \<Rightarrow> string" where
  "lower s = map lower_char s"

text \<open>
  The manager holds references to connection objects.  The objects live in a store, a
  list indexed by reference; \<^verbatim>\<open>current_connection\<close> and the values of the dictionary
  \<^verbatim>\<open>connections\<close> are references, so that both name the same object.
\<close>

record connection_manager =
  objects :: "connection_obj list"
  current_connection :: "nat option"
  connections :: "string \<rightharpoonup> nat"

definition ConnectionManager :: connection_manager where
  "ConnectionManager = \<lparr>objects = [], current_connection = None, connections = Map.empty\<rparr>"

text \<open>
  The prefix of the text of the \<^verbatim>\<open>ValueError\<close>: U+4E0D U+652F U+6301 U+7684 U+8FDE U+63A5
  U+7C7B U+578B, a colon and a space.
\<close>

definition unsupported_type_prefix :: string where
  "unsupported_type_prefix =
     [CHR 0xE4, CHR 0xB8, CHR 0x8D, CHR 0xE6, CHR 0x94, CHR 0xAF, CHR 0xE6, CHR 0x8C, CHR 0x81,
      CHR 0xE7, CHR 0x9A, CHR 0x84, CHR 0xE8, CHR 0xBF, CHR 0x9E, CHR 0xE6, CHR 0x8E, CHR 0xA5,
      CHR 0xE7, CHR 0xB1, CHR 0xBB, CHR 0xE5, CHR 0x9E, CHR 0x8B, CHR '':'', CHR '' '']"

text \<open>
  \<^verbatim>\<open>create_connection(connection_type, **kwargs)\<close> returns the reference to the new object
  or the exception raised, and the manager afterwards.
\<close>

definition create_connection ::
    "bool \<Rightarrow> connection_manager \<Rightarrow> string \<Rightarrow> kwargs \<Rightarrow> (exc + nat) \<times> connection_manager" where
  "create_connection bt self ctype kw =
     (case map_of connection_types (lower ctype) of
        None \<Rightarrow> (Inl (Exc ValueError (unsupported_type_prefix @ ctype)), self)
      | Some cls \<Rightarrow>
          (case cls bt kw of
             Inl e \<Rightarrow> (Inl e, self)
           | Inr connection \<Rightarrow>
               (Inr (length (objects self)),
                self\<lparr>objects := objects self @ [connection],
                     connections := (connections self)(get_info connection \<mapsto> length (objects self)),
                     current_connection := Some (length (objects self))\<rparr>)))"

text \<open>The class of an object, by name.\<close>

fun class_name :: "connection_obj \<Rightarrow> string" where
  "class_name (OfSerial c) = ''SerialConnection''"
| "class_name (OfTCP c) = ''TCPConnection''"
| "class_name (OfUDP c) = ''UDPConnection''"
| "class_name (OfWiFi c) = ''WiFiConnection''"
| "class_name (OfEthernet c) = ''EthernetConnection''"
| "class_name (OfBluetooth c) = ''BluetoothConnection''"


text \<open>The class of each key of \<^verbatim>\<open>connection_types\<close>, as the dictionary literal gives it.\<close>

definition expected_class :: "(string \<times> string) list" where
  "expected_class =
     [(''serial'', ''SerialConnection''), (''tcp'', ''TCPConnection''),
      (''udp'', ''UDPConnection''), (''wifi'', ''WiFiConnection''),
      (''ethernet'', ''EthernetConnection''), (''bluetooth'', ''BluetoothConnection'')]"



text \<open>
  The keyword arguments with which the main window calls \<^verbatim>\<open>create_connection\<close> for a
  serial port, for TCP, WiFi and Ethernet, for UDP and for Bluetooth, with values of the
  kinds its widgets give, and the objects whose attributes are those values.
\<close>

definition serial_kwargs_example :: kwargs where
  "serial_kwargs_example =
     [(''port_name'', PStr ''COM3''), (''baudrate'', PInt 9600), (''databits'', PInt 8),
      (''parity'', PStr ''N''), (''stopbits'', PInt 1)]"

definition tcp_kwargs_example :: kwargs where
  "tcp_kwargs_example =
     [(''host'', PStr ''192.168.1.10''), (''port'', PInt 8080), (''is_server'', PBool False)]"

definition udp_kwargs_example :: kwargs where
  "udp_kwargs_example =
     [(''local_host'', PStr ''0.0.0.0''), (''local_port'', PInt 9000),
      (''remote_host'', PNone), (''remote_port'', PNone)]"

definition bluetooth_kwargs_example :: kwargs where
  "bluetooth_kwargs_example = [(''address'', PStr ''00:11:22:33:44:55''), (''port'', PInt 1)]"

definition serial_object_example :: serial_connection where
  "serial_object_example =
     SerialConnection (PStr ''COM3'') (PInt 9600) (PInt 8) (PStr ''N'') (PInt 1)"

definition tcp_object_example :: tcp_connection where
  "tcp_object_example = TCPConnection (PStr ''192.168.1.10'') (PInt 8080) (PBool False)"

definition udp_object_example :: udp_connection where
  "udp_object_example = UDPConnection (PStr ''0.0.0.0'') (PInt 9000) PNone PNone"

definition bluetooth_object_example :: bluetooth_connection where
  "bluetooth_object_example = BluetoothConnection False (PStr ''00:11:22:33:44:55'') (PInt 1)"

text \<open>A manager that has made one connection, the serial one.\<close>

definition manager_example :: connection_manager where
  "manager_example =
     \<lparr>objects = [OfSerial serial_object_example], current_connection = Some 0,
      connections = [Serial_get_info serial_object_example \<mapsto> 0]\<rparr>"

section \<open>preset\_manager.py: PresetManager\<close>

text \<open>
  The only mutable attribute the operations below touch is \<^verbatim>\<open>self.presets\<close>, so an
  operation takes the list and returns its result together with the new list.
\<close>

type_synonym presets = "string list"

text \<open>
  \<^verbatim>\<open>add_preset\<close>: the guard is \<^verbatim>\<open>preset_text and preset_text not in self.presets\<close>;
  a Python string is truthy exactly when it is not empty.
\<close>

definition add_preset :: "presets \<Rightarrow> string \<Rightarrow> bool \<times> presets" where
  "add_preset presets preset_text =
     (if preset_text \<noteq> [] \<and> preset_text \<notin> set presets
      then (True, presets @ [preset_text])
      else (False, presets))"


subsection \<open>Preset files\<close>

text \<open>
  The file system as the two file operations see it.  A path is absent, or it exists and
  opening or reading it raises (a directory, no permission, bytes that are not UTF-8), or
  it is a file with its stored text.  \<open>write_failure\<close> gives the exception raised when
  the directory of a path cannot be made or the path cannot be opened for writing.
  \<open>windows\<close> tells the line separator of the platform.
\<close>

record filesystem =
  files :: "string \<rightharpoonup> exc + string"
  write_failure :: "string \<Rightarrow> exc option"
  windows :: bool

definition os_linesep :: "filesystem \<Rightarrow> string" where
  "os_linesep fs = (if windows fs then [CHR 0x0D, CHR 0x0A] else [CHR 0x0A])"

text \<open>
  Both files are opened in text mode with the default \<^verbatim>\<open>newline=None\<close>.  On writing,
  each line feed becomes the line separator of the platform.  On reading, universal
  newlines are in force: carriage return followed by line feed, and a carriage return
  alone, each become one line feed.
\<close>

definition write_translate :: "string \<Rightarrow> string \<Rightarrow> string" where
  "write_translate linesep s = concat (map (\<lambda>c. if c = CHR 0x0A then linesep else [c]) s)"

fun universal_newlines :: "string \<Rightarrow> string" where
  "universal_newlines [] = []"
| "universal_newlines (c # cs) =
     (if c = CHR 0x0D then
        (case cs of
           [] \<Rightarrow> [CHR 0x0A]
         | d # ds \<Rightarrow>
             if d = CHR 0x0A then CHR 0x0A # universal_newlines ds
             else CHR 0x0A # universal_newlines cs)
      else c # universal_newlines cs)"

text \<open>
  Iterating over the file gives its lines, each with its line feed, and a last line
  without one when the text does not end in a line feed.  The first argument is the part
  of the current line already read.
\<close>

fun file_lines :: "string \<Rightarrow> string \<Rightarrow> string list" where
  "file_lines line [] = (if line = [] then [] else [line])"
| "file_lines line (c # cs) =
     (if c = CHR 0x0A then (line @ [c]) # file_lines [] cs else file_lines (line @ [c]) cs)"

text \<open>\<^verbatim>\<open>line.rstrip('\n')\<close> removes every line feed at the end.\<close>

definition rstrip_newline :: "string \<Rightarrow> string" where
  "rstrip_newline s = rev (dropWhile (\<lambda>c. c = CHR 0x0A) (rev s))"

text \<open>
  The texts of the exceptions: loading failed (U+52A0 U+8F7D U+9884 U+8BBE U+5931 U+8D25),
  the file does not exist (U+6587 U+4EF6 U+4E0D U+5B58 U+5728), saving failed
  (U+4FDD U+5B58 U+9884 U+8BBE U+5931 U+8D25), each followed by a colon and a space, and
  there are no presets to save (U+6CA1 U+6709 U+9884 U+8BBE U+53EF U+4FDD U+5B58).
\<close>

definition load_failed_prefix :: string where
  "load_failed_prefix =
     [CHR 0xE5, CHR 0x8A, CHR 0xA0, CHR 0xE8, CHR 0xBD, CHR 0xBD, CHR 0xE9, CHR 0xA2, CHR 0x84,
      CHR 0xE8, CHR 0xAE, CHR 0xBE, CHR 0xE5, CHR 0xA4, CHR 0xB1, CHR 0xE8, CHR 0xB4, CHR 0xA5,
      CHR '':'', CHR '' '']"

definition file_missing_prefix :: string where
  "file_missing_prefix =
     [CHR 0xE6, CHR 0x96, CHR 0x87, CHR 0xE4, CHR 0xBB, CHR 0xB6, CHR 0xE4, CHR 0xB8, CHR 0x8D,
      CHR 0xE5, CHR 0xAD, CHR 0x98, CHR 0xE5, CHR 0x9C, CHR 0xA8, CHR '':'', CHR '' '']"

definition save_failed_prefix :: string where
  "save_failed_prefix =
     [CHR 0xE4, CHR 0xBF, CHR 0x9D, CHR 0xE5, CHR 0xAD, CHR 0x98, CHR 0xE9, CHR 0xA2, CHR 0x84,
      CHR 0xE8, CHR 0xAE, CHR 0xBE, CHR 0xE5, CHR 0xA4, CHR 0xB1, CHR 0xE8, CHR 0xB4, CHR 0xA5,
      CHR '':'', CHR '' '']"

definition no_presets_text :: string where
  "no_presets_text =
     [CHR 0xE6, CHR 0xB2, CHR 0xA1, CHR 0xE6, CHR 0x9C, CHR 0x89, CHR 0xE9, CHR 0xA2, CHR 0x84,
      CHR 0xE8, CHR 0xAE, CHR 0xBE, CHR 0xE5, CHR 0x8F, CHR 0xAF, CHR 0xE4, CHR 0xBF, CHR 0x9D,
      CHR 0xE5, CHR 0xAD, CHR 0x98]"

text \<open>
  \<^verbatim>\<open>load_presets_from_file(file_path)\<close>.  The \<^verbatim>\<open>FileNotFoundError\<close> raised for a path
  that does not exist is caught by the enclosing \<^verbatim>\<open>except Exception\<close>, as is any error
  of opening and reading, and an \<^verbatim>\<open>Exception\<close> with the same text after the prefix is
  raised in its place.  The list is assigned only after all lines are read.
\<close>

definition load_presets_from_file :: "filesystem \<Rightarrow> presets \<Rightarrow> string \<Rightarrow> (exc + bool) \<times> presets" where
  "load_presets_from_file fs presets file_path =
     (case files fs file_path of
        None \<Rightarrow>
          (Inl (Exc Exception (load_failed_prefix @ file_missing_prefix @ file_path)), presets)
      | Some (Inl e) \<Rightarrow> (Inl (Exc Exception (load_failed_prefix @ message e)), presets)
      | Some (Inr stored) \<Rightarrow>
          (Inr True, map rstrip_newline (file_lines [] (universal_newlines stored))))"

text \<open>
  \<^verbatim>\<open>save_presets_to_file(file_path)\<close> returns the exception raised, or \<^verbatim>\<open>True\<close> and the
  file system with the file written.  The list itself is not changed.
\<close>

definition save_presets_to_file :: "filesystem \<Rightarrow> presets \<Rightarrow> string \<Rightarrow> exc + bool \<times> filesystem" where
  "save_presets_to_file fs presets file_path =
     (if presets = [] then Inl (Exc Exception (save_failed_prefix @ no_presets_text))
      else case write_failure fs file_path of
        Some e \<Rightarrow> Inl (Exc Exception (save_failed_prefix @ message e))
      | None \<Rightarrow>
          Inr (True,
               fs\<lparr>files := (files fs)(file_path \<mapsto>
                  Inr (concat (map (\<lambda>preset.
                         write_translate (os_linesep fs) (preset @ [CHR 0x0A])) presets)))\<rparr>))"

text \<open>Saving the list and then loading from the same path, in one manager.\<close>

definition save_then_load :: "filesystem \<Rightarrow> presets \<Rightarrow> string \<Rightarrow> exc + (exc + bool) \<times> presets" where
  "save_then_load fs presets file_path =
     (case save_presets_to_file fs presets file_path of
        Inl e \<Rightarrow> Inl e
      | Inr (ok, fs') \<Rightarrow> Inr (load_presets_from_file fs' presets file_path))"

text \<open>A file system with no files, where every path can be written, on a POSIX platform.\<close>

definition empty_filesystem :: filesystem where
  "empty_filesystem = \<lparr>files = Map.empty, write_failure = (\<lambda>p. None), windows = False\<rparr>"

section \<open>serial\_config.py: the encoding and error-handling tables\<close>

text \<open>
  The keys are the labels shown in the combo boxes; the Chinese parts are given as UTF-8:
  U+4E2D U+6587 in the labels of GBK and GB2312, U+9ED8 U+8BA4 in the label of ANSI,
  U+6269 U+5C55 U+4E2D U+6587 in the label of GB18030; replace is U+66FF U+6362 U+9519
  U+8BEF followed by U+FFFD in brackets, ignore is U+5FFD U+7565 U+9519 U+8BEF, strict is
  U+4E25 U+683C U+6A21 U+5F0F followed by U+62A5 U+9519 in brackets.
\<close>

definition ENCODING_OPTIONS :: "(string \<times> string) list" where
  "ENCODING_OPTIONS =
     [(''UTF-8'', ''utf-8''),
      (''GBK ('' @ [CHR 0xE4, CHR 0xB8, CHR 0xAD, CHR 0xE6, CHR 0x96, CHR 0x87] @ '')'', ''gbk''),
      (''GB2312 ('' @ [CHR 0xE4, CHR 0xB8, CHR 0xAD, CHR 0xE6, CHR 0x96, CHR 0x87] @ '')'',
       ''gb2312''),
      (''ANSI ('' @ [CHR 0xE9, CHR 0xBB, CHR 0x98, CHR 0xE8, CHR 0xAE, CHR 0xA4] @ '')'',
       ''latin-1''),
      (''UTF-16'', ''utf-16''),
      (''ASCII'', ''ascii''),
      (''GB18030 ('' @ [CHR 0xE6, CHR 0x89, CHR 0xA9, CHR 0xE5, CHR 0xB1, CHR 0x95,
                       CHR 0xE4, CHR 0xB8, CHR 0xAD, CHR 0xE6, CHR 0x96, CHR 0x87] @ '')'',
       ''gb18030'')]"

definition ERROR_HANDLING_OPTIONS :: "(string \<times> string) list" where
  "ERROR_HANDLING_OPTIONS =
     [([CHR 0xE6, CHR 0x9B, CHR 0xBF, CHR 0xE6, CHR 0x8D, CHR 0xA2, CHR 0xE9, CHR 0x94, CHR 0x99,
        CHR 0xE8, CHR 0xAF, CHR 0xAF] @ '' ('' @ [CHR 0xEF, CHR 0xBF, CHR 0xBD] @ '')'',
       ''replace''),
      ([CHR 0xE5, CHR 0xBF, CHR 0xBD, CHR 0xE7, CHR 0x95, CHR 0xA5, CHR 0xE9, CHR 0x94, CHR 0x99,
        CHR 0xE8, CHR 0xAF, CHR 0xAF],
       ''ignore''),
      ([CHR 0xE4, CHR 0xB8, CHR 0xA5, CHR 0xE6, CHR 0xA0, CHR 0xBC, CHR 0xE6, CHR 0xA8, CHR 0xA1,
        CHR 0xE5, CHR 0xBC, CHR 0x8F] @ '' ('' @ [CHR 0xE6, CHR 0x8A, CHR 0xA5, CHR 0xE9, CHR 0x94,
        CHR 0x99] @ '')'',
       ''strict'')]"

definition get_encoding_value :: "string \<Rightarrow> string" where
  "get_encoding_value name =
     (case map_of ENCODING_OPTIONS name of Some v \<Rightarrow> v | None \<Rightarrow> ''utf-8'')"

definition get_error_handling_value :: "string \<Rightarrow> string" where
  "get_error_handling_value name =
     (case map_of ERROR_HANDLING_OPTIONS name of Some v \<Rightarrow> v | None \<Rightarrow> ''replace'')"

section \<open>main\_app.py: the receive log and its option handlers\<close>

text \<open>
  An entry of \<^verbatim>\<open>data_history\<close> is a dictionary with the keys \<^verbatim>\<open>raw_data\<close>,
  \<^verbatim>\<open>timestamp\<close> and \<^verbatim>\<open>is_sent\<close>.  The raw data are bytes for a received entry and a
  string for a sent one.  The time stamp is a \<^verbatim>\<open>QDateTime\<close>, here the number of
  milliseconds it stands for; its \<^verbatim>\<open>toString\<close> with the format of the source is a
  parameter.
\<close>

datatype payload = Bytes bytes | Text string

record history_entry =
  raw_data :: payload
  timestamp :: nat
  is_sent :: bool

text \<open>
  The document of the receive area is the sequence of the pieces of text inserted, each
  with its character format: a colour and whether it is bold, or the format already at the
  cursor when \<^verbatim>\<open>insertText\<close> is called with the text alone.  The cursor is moved to the
  end before every entry, so every insertion appends.
\<close>

datatype char_format = Format (foreground: string) (bold: bool) | AtCursor

type_synonym document = "(string \<times> char_format) list"

definition toPlainText :: "document \<Rightarrow> string" where
  "toPlainText doc = concat (map fst doc)"

text \<open>
  The part of the main window the three handlers and \<^verbatim>\<open>_refresh_display\<close> read or write:
  the check boxes, the current texts of the two combo boxes, the history, the document of
  \<^verbatim>\<open>receive_text\<close> and the receive worker, if any.  The position of the scroll bar, which
  \<^verbatim>\<open>_refresh_display\<close> saves and restores, is not part of the state.
\<close>

record window =
  hex_receive_check :: bool
  timestamp_check :: bool
  newline_check :: bool
  receive_encoding_combo :: string
  error_handling_combo :: string
  data_history :: "history_entry list"
  receive_text :: document
  serial_thread :: "worker option"

text \<open>
  What the handlers take from outside the window: the library decoder, the rendering of a
  time stamp, and the current palette (\<^verbatim>\<open>ThemeManager.get_theme()\<close>).
\<close>

record surroundings =
  codec_decode :: decoder
  toString :: "nat \<Rightarrow> string"
  theme :: palette

text \<open>The two tags, sent (U+53D1 U+9001) and received (U+6536 U+5230), in square brackets.\<close>

definition tag_sent :: string where
  "tag_sent = ''['' @ [CHR 0xE5, CHR 0x8F, CHR 0x91, CHR 0xE9, CHR 0x80, CHR 0x81] @ ''] ''"

definition tag_received :: string where
  "tag_received = ''['' @ [CHR 0xE6, CHR 0x94, CHR 0xB6, CHR 0xE5, CHR 0x88, CHR 0xB0] @ ''] ''"

text \<open>
  The body of the loop of \<^verbatim>\<open>_refresh_display\<close> for one entry, in three steps: the time
  stamp and the tag; the data; the line feed.  Inserting the data can raise: the decoder
  can, and an entry whose raw data are of the wrong kind for its \<^verbatim>\<open>is_sent\<close> makes
  \<^verbatim>\<open>insertText\<close> or \<^verbatim>\<open>_format_data\<close> fail.
\<close>

definition entry_head :: "surroundings \<Rightarrow> window \<Rightarrow> history_entry \<Rightarrow> document" where
  "entry_head sur self entry =
     (if timestamp_check self then
        [(''['' @ toString sur (timestamp entry) @ ''] '', Format (INFO (theme sur)) True)]
      else []) @
     [(if is_sent entry then tag_sent else tag_received,
       Format (INFO (theme sur)) True)]"

definition wrong_kind :: exc where
  "wrong_kind = Exc TypeError ''raw_data is of the wrong type''"

definition entry_data :: "surroundings \<Rightarrow> window \<Rightarrow> history_entry \<Rightarrow> exc + document" where
  "entry_data sur self entry =
     (if is_sent entry then
        (case raw_data entry of
           Text s \<Rightarrow> Inr [(s, Format (SUCCESS (theme sur)) False)]
         | Bytes b \<Rightarrow> Inl wrong_kind)
      else
        (case raw_data entry of
           Bytes b \<Rightarrow>
             (case format_data (codec_decode sur) b (hex_receive_check self)
                     (get_encoding_value (receive_encoding_combo self))
                     (get_error_handling_value (error_handling_combo self)) of
                Inl e \<Rightarrow> Inl e
              | Inr formatted_data \<Rightarrow>
                  Inr [(formatted_data, Format (DARK (theme sur)) False)])
         | Text s \<Rightarrow> Inl wrong_kind))"

definition entry_tail :: "window \<Rightarrow> document" where
  "entry_tail self = (if newline_check self then [([CHR 0x0A], AtCursor)] else [])"

text \<open>
  The loop over the history, started on the cleared document.  An exception leaves the
  loop with what has been inserted so far.
\<close>

fun refresh_loop :: "surroundings \<Rightarrow> window \<Rightarrow> history_entry list \<Rightarrow> document \<Rightarrow> exc option \<times> document" where
  "refresh_loop sur self [] doc = (None, doc)"
| "refresh_loop sur self (entry # entries) doc =
     (case entry_data sur self entry of
        Inl e \<Rightarrow> (Some e, doc @ entry_head sur self entry)
      | Inr d \<Rightarrow>
          refresh_loop sur self entries (doc @ entry_head sur self entry @ d @ entry_tail self))"

definition refresh_display :: "surroundings \<Rightarrow> window \<Rightarrow> exc option \<times> window" where
  "refresh_display sur self =
     (let (raised, doc) = refresh_loop sur self (data_history self) []
      in (raised, self\<lparr>receive_text := doc\<rparr>))"

text \<open>
  The three handlers.  Each runs after the control has changed, so the window given
  already holds the new value of the check box or combo box.
\<close>

definition toggle_hex_receive :: "surroundings \<Rightarrow> window \<Rightarrow> exc option \<times> window" where
  "toggle_hex_receive sur self =
     refresh_display sur
       (case serial_thread self of
          Some t \<Rightarrow>
            self\<lparr>serial_thread :=
              Some (update_settings (Some (hex_receive_check self)) None None t)\<rparr>
        | None \<Rightarrow> self)"

definition on_receive_encoding_changed :: "surroundings \<Rightarrow> window \<Rightarrow> exc option \<times> window" where
  "on_receive_encoding_changed sur self =
     refresh_display sur
       (case serial_thread self of
          Some t \<Rightarrow>
            self\<lparr>serial_thread :=
              Some (update_settings None
                      (Some (get_encoding_value (receive_encoding_combo self))) None t)\<rparr>
        | None \<Rightarrow> self)"










section \<open>serial\_threads.py: FileSendThread\<close>

subsection \<open>The floating-point arithmetic of the progress value\<close>

text \<open>
  The progress is \<^verbatim>\<open>int((sent_size / file_size) * 100)\<close>: a true division of two integers,
  a multiplication by 100 and a truncation, the first two in IEEE 754 binary64 with
  rounding to nearest, ties to even.  A non-negative double is given by a mantissa \<open>m\<close>
  and an exponent \<open>e\<close> and stands for \<open>m * 2 ^ e\<close>.  \<open>nearest_double num den\<close> is the
  double nearest to the exact quotient of two natural numbers, with a mantissa of 53 bits:
  \<open>double_exponent\<close> is the exponent \<open>ex\<close> with \<open>2 ^ ex \<le> num / den < 2 ^ (ex + 1)\<close>, found
  from the bit lengths, and the quotient is rounded to a multiple of \<open>2 ^ (ex - 52)\<close>.
  The exponent is not bounded, which agrees with binary64 for quotients between
  \<open>2 ^ - 1022\<close> and \<open>2 ^ 1024\<close>, so for all byte counts that occur.
\<close>

fun bitlen :: "nat \<Rightarrow> nat" where
  "bitlen n = (if n = 0 then 0 else Suc (bitlen (n div 2)))"

declare bitlen.simps [simp del]

definition round_half_even :: "nat \<Rightarrow> nat \<Rightarrow> nat" where
  "round_half_even a b =
     (let q = a div b; r = a mod b in
      if 2 * r < b then q
      else if b < 2 * r then q + 1
      else if even q then q else q + 1)"

definition double_exponent :: "nat \<Rightarrow> nat \<Rightarrow> int" where
  "double_exponent num den =
     (let d = int (bitlen num) - int (bitlen den);
          at_least = (if 0 \<le> d then den * 2 ^ nat d \<le> num else den \<le> num * 2 ^ nat (- d))
      in if at_least then d else d - 1)"

definition nearest_double :: "nat \<Rightarrow> nat \<Rightarrow> nat \<times> int" where
  "nearest_double num den =
     (if num = 0 then (0, 0)
      else
        let sh = double_exponent num den - 52
        in if 0 \<le> sh then (round_half_even num (den * 2 ^ nat sh), sh)
           else (round_half_even (num * 2 ^ nat (- sh)) den, sh))"

text \<open>\<^verbatim>\<open>a / b\<close> for integers \<open>a \<ge> 0\<close> and \<open>b > 0\<close>, correctly rounded.\<close>

definition true_divide :: "nat \<Rightarrow> nat \<Rightarrow> nat \<times> int" where
  "true_divide a b = nearest_double a b"

text \<open>\<^verbatim>\<open>x * 100\<close> for a double \<open>x\<close>.\<close>

definition times_100 :: "nat \<times> int \<Rightarrow> nat \<times> int" where
  "times_100 x =
     (case x of (m, e) \<Rightarrow>
        if 0 \<le> e then nearest_double (m * 100 * 2 ^ nat e) 1
        else nearest_double (m * 100) (2 ^ nat (- e)))"

text \<open>\<^verbatim>\<open>int(x)\<close> for a non-negative double: the integer part.\<close>

definition int_of_double :: "nat \<times> int \<Rightarrow> int" where
  "int_of_double x =
     (case x of (m, e) \<Rightarrow> if 0 \<le> e then int (m * 2 ^ nat e) else int (m div 2 ^ nat (- e)))"

definition progress :: "nat \<Rightarrow> nat \<Rightarrow> int" where
  "progress sent_size file_size =
     (if file_size > 0 then int_of_double (times_100 (true_divide sent_size file_size)) else 100)"

subsection \<open>The thread\<close>

text \<open>
  The signals of the thread.  The texts of \<^verbatim>\<open>finished\<close>: the file was sent, so many
  bytes in all (U+6587 U+4EF6 U+53D1 U+9001 U+5B8C U+6210 U+FF0C U+5171 U+53D1 U+9001, the
  count, U+5B57 U+8282); sending was cancelled (U+6587 U+4EF6 U+53D1 U+9001 U+5DF2 U+53D6
  U+6D88); sending failed (U+6587 U+4EF6 U+53D1 U+9001 U+5931 U+8D25, colon, space, the
  text of the exception).
\<close>

datatype file_signal = progress_updated int | finished bool string

definition sent_text :: "nat \<Rightarrow> string" where
  "sent_text sent_size =
     [CHR 0xE6, CHR 0x96, CHR 0x87, CHR 0xE4, CHR 0xBB, CHR 0xB6, CHR 0xE5, CHR 0x8F, CHR 0x91,
      CHR 0xE9, CHR 0x80, CHR 0x81, CHR 0xE5, CHR 0xAE, CHR 0x8C, CHR 0xE6, CHR 0x88, CHR 0x90,
      CHR 0xEF, CHR 0xBC, CHR 0x8C, CHR 0xE5, CHR 0x85, CHR 0xB1, CHR 0xE5, CHR 0x8F, CHR 0x91,
      CHR 0xE9, CHR 0x80, CHR 0x81, CHR '' ''] @ str_nat sent_size @
     [CHR '' '', CHR 0xE5, CHR 0xAD, CHR 0x97, CHR 0xE8, CHR 0x8A, CHR 0x82]"

definition cancelled_text :: string where
  "cancelled_text =
     [CHR 0xE6, CHR 0x96, CHR 0x87, CHR 0xE4, CHR 0xBB, CHR 0xB6, CHR 0xE5, CHR 0x8F, CHR 0x91,
      CHR 0xE9, CHR 0x80, CHR 0x81, CHR 0xE5, CHR 0xB7, CHR 0xB2, CHR 0xE5, CHR 0x8F, CHR 0x96,
      CHR 0xE6, CHR 0xB6, CHR 0x88]"

definition failed_text :: "exc \<Rightarrow> string" where
  "failed_text e =
     [CHR 0xE6, CHR 0x96, CHR 0x87, CHR 0xE4, CHR 0xBB, CHR 0xB6, CHR 0xE5, CHR 0x8F, CHR 0x91,
      CHR 0xE9, CHR 0x80, CHR 0x81, CHR 0xE5, CHR 0xA4, CHR 0xB1, CHR 0xE8, CHR 0xB4, CHR 0xA5,
      CHR '':'', CHR '' ''] @ message e"

text \<open>
  What surrounds one run of the thread.  \<open>getsize\<close> is the outcome of
  \<^verbatim>\<open>os.path.getsize\<close> and \<open>open_outcome\<close> the outcome of \<^verbatim>\<open>open\<close>: an exception or the
  bytes of the file.  The flag \<^verbatim>\<open>running\<close> is read at moments numbered from 0, once in
  every test of the loop and once after the loop; \<^verbatim>\<open>stop()\<close>, which alone changes it,
  sets it to false, so there is a first moment, if any, at which it is read as false.
  \<open>port_open\<close> is \<^verbatim>\<open>serial_port.is_open\<close> and \<open>write_raises\<close> the exception of
  \<^verbatim>\<open>serial_port.write\<close>, if any, at each moment.  \<open>str_encode\<close> is \<^verbatim>\<open>str.encode\<close>.
\<close>

record send_surroundings =
  getsize :: "exc + nat"
  open_outcome :: "exc + bytes"
  stop_seen_at :: "nat option"
  port_open :: "nat \<Rightarrow> bool"
  write_raises :: "nat \<Rightarrow> exc option"
  str_encode :: encoder

definition running :: "send_surroundings \<Rightarrow> nat \<Rightarrow> bool" where
  "running sur t = (case stop_seen_at sur of None \<Rightarrow> True | Some k \<Rightarrow> t < k)"

text \<open>\<^verbatim>\<open>get_file_size\<close>: the size, or 0 when asking for it raises.\<close>

definition get_file_size :: "send_surroundings \<Rightarrow> nat" where
  "get_file_size sur = (case getsize sur of Inl e \<Rightarrow> 0 | Inr n \<Rightarrow> n)"

text \<open>
  \<^verbatim>\<open>f.read(chunk_size)\<close> on the bytes not yet read, for a file opened in binary mode:
  at most \<^verbatim>\<open>chunk_size\<close> bytes, all of them when \<^verbatim>\<open>chunk_size\<close> is -1, and
  \<^verbatim>\<open>ValueError\<close> for any other negative size; the result is the chunk and what is left.
\<close>

definition read_length_error :: exc where
  "read_length_error = Exc ValueError ''read length must be non-negative or -1''"

definition file_read :: "int \<Rightarrow> bytes \<Rightarrow> exc + bytes \<times> bytes" where
  "file_read chunk_size unread =
     (if chunk_size < - 1 then Inl read_length_error
      else if chunk_size = - 1 then Inr (unread, [])
      else Inr (take (nat chunk_size) unread, drop (nat chunk_size) unread))"

text \<open>
  The loop of \<^verbatim>\<open>run\<close>, from moment \<open>t\<close> with the bytes \<open>unread\<close> and the count
  \<^verbatim>\<open>sent_size\<close>.  It returns the progress signals emitted and either the exception that
  ended it or the final count together with the moment of the next reading of
  \<^verbatim>\<open>running\<close>.
\<close>

function send_loop ::
    "send_surroundings \<Rightarrow> bool \<Rightarrow> string \<Rightarrow> int \<Rightarrow> nat \<Rightarrow> nat \<Rightarrow> bytes \<Rightarrow> nat
      \<Rightarrow> file_signal list \<times> (exc + nat \<times> nat)" where
  "send_loop sur hex codec chunk_size file_size t unread sent_size =
     (if running sur t \<and> port_open sur t then
        (case file_read chunk_size unread of
           Inl e \<Rightarrow> ([], Inl e)
         | Inr (bs, rest) \<Rightarrow>
             if bs = [] then ([], Inr (sent_size, Suc t))
             else
               (case (if hex then str_encode sur codec ''strict'' (bytes_hex bs) else Inr bs) of
                  Inl e \<Rightarrow> ([], Inl e)
                | Inr chunk \<Rightarrow>
                    (case write_raises sur t of
                       Some e \<Rightarrow> ([], Inl e)
                     | None \<Rightarrow>
                         (case send_loop sur hex codec chunk_size file_size (Suc t) rest
                                 (sent_size + length chunk) of
                            (signals, outcome) \<Rightarrow>
                              (progress_updated (progress (sent_size + length chunk) file_size)
                                 # signals,
                               outcome)))))
      else ([], Inr (sent_size, Suc t)))"
  by pat_completeness auto
termination
proof (relation "measure (\<lambda>(sur, hex, codec, chunk_size, file_size, t, unread, sent_size).
    length unread)")
  show "wf (measure (\<lambda>(sur, hex, codec, chunk_size, file_size, t, unread, sent_size).
    length unread))"
    by simp
next
  fix sur :: send_surroundings and hex :: bool and codec :: string and chunk_size :: int
    and file_size t :: nat and unread :: bytes and sent_size :: nat
    and r :: "bytes \<times> bytes" and bs rest chunk :: bytes
  assume "file_read chunk_size unread = Inr r" and "(bs, rest) = r" and "bs \<noteq> []"
  then have "length rest < length unread"
    by (auto simp: file_read_def split: if_splits)
  then show "((sur, hex, codec, chunk_size, file_size, Suc t, rest, sent_size + length chunk),
      sur, hex, codec, chunk_size, file_size, t, unread, sent_size)
    \<in> measure (\<lambda>(sur, hex, codec, chunk_size, file_size, t, unread, sent_size). length unread)"
    by simp
qed

declare send_loop.simps [simp del]

text \<open>\<^verbatim>\<open>run\<close>: all signals of one run, in order.\<close>

definition run :: "send_surroundings \<Rightarrow> bool \<Rightarrow> string \<Rightarrow> int \<Rightarrow> file_signal list" where
  "run sur hex codec chunk_size =
     (case open_outcome sur of
        Inl e \<Rightarrow> [finished False (failed_text e)]
      | Inr content \<Rightarrow>
          (case send_loop sur hex codec chunk_size (get_file_size sur) 0 content 0 of
             (signals, Inl e) \<Rightarrow> signals @ [finished False (failed_text e)]
           | (signals, Inr (sent_size, t)) \<Rightarrow>
               signals @
               [if running sur t then finished True (sent_text sent_size)
                else finished False cancelled_text]))"

text \<open>
  An encoder to run the definitions with: on text of ASCII characters, as the digits of
  \<^verbatim>\<open>bytes.hex()\<close> are, every codec of the encoding table except UTF-16 gives one byte for
  each character, the byte of its code.
\<close>

definition encode_ascii :: encoder where
  "encode_ascii codec errors s = Inr (map (\<lambda>c. of_nat (of_char c)) s)"

text \<open>
  A run that nothing disturbs: the file has the size reported and can be opened, the
  thread is not stopped, the port stays open and every write succeeds.
\<close>

definition undisturbed :: "bytes \<Rightarrow> send_surroundings" where
  "undisturbed content =
     \<lparr>getsize = Inr (length content), open_outcome = Inr content, stop_seen_at = None,
      port_open = (\<lambda>t. True), write_raises = (\<lambda>t. None), str_encode = encode_ascii\<rparr>"

section \<open>Properties of ThemeManager\<close>

lemmas theme_names =
  name_pink_def name_cyan_def name_blue_def name_purple_def
  name_red_def name_black_def name_white_def name_green_def

lemma theme_names_distinct: "distinct (map fst THEMES)"
  by (simp add: THEMES_def theme_names)

lemma get_all_themes_eight: "length get_all_themes = 8"
  by (simp add: get_all_themes_def THEMES_def)

text \<open>Each palette of the source is the row of the specification's table, role by role.\<close>

lemma spec_row_pink: "map_of spec_palette_table name_pink = Some (roles theme_pink)"
  by (simp add: spec_palette_table_def roles_def theme_pink_def theme_names)

lemma spec_row_cyan: "map_of spec_palette_table name_cyan = Some (roles theme_cyan)"
  by (simp add: spec_palette_table_def roles_def theme_cyan_def theme_names)

lemma spec_row_blue: "map_of spec_palette_table name_blue = Some (roles theme_blue)"
  by (simp add: spec_palette_table_def roles_def theme_blue_def theme_names)

lemma spec_row_purple: "map_of spec_palette_table name_purple = Some (roles theme_purple)"
  by (simp add: spec_palette_table_def roles_def theme_purple_def theme_names)

lemma spec_row_red: "map_of spec_palette_table name_red = Some (roles theme_red)"
  by (simp add: spec_palette_table_def roles_def theme_red_def theme_names)

lemma spec_row_black: "map_of spec_palette_table name_black = Some (roles theme_black)"
  by (simp add: spec_palette_table_def roles_def theme_black_def theme_names)

lemma spec_row_white: "map_of spec_palette_table name_white = Some (roles theme_white)"
  by (simp add: spec_palette_table_def roles_def theme_white_def theme_names)

lemma spec_row_green: "map_of spec_palette_table name_green = Some (roles theme_green)"
  by (simp add: spec_palette_table_def roles_def theme_green_def theme_names)

lemma THEMES_rows:
  assumes "(name, p) \<in> set THEMES"
  shows "map_of spec_palette_table name = Some (roles p)"
proof -
  from assms consider
      "name = name_pink" "p = theme_pink" | "name = name_cyan" "p = theme_cyan"
    | "name = name_blue" "p = theme_blue" | "name = name_purple" "p = theme_purple"
    | "name = name_red" "p = theme_red" | "name = name_black" "p = theme_black"
    | "name = name_white" "p = theme_white" | "name = name_green" "p = theme_green"
    unfolding THEMES_def by auto
  then show ?thesis
  proof cases
    case 1 then show ?thesis by (simp only: spec_row_pink)
  next
    case 2 then show ?thesis by (simp only: spec_row_cyan)
  next
    case 3 then show ?thesis by (simp only: spec_row_blue)
  next
    case 4 then show ?thesis by (simp only: spec_row_purple)
  next
    case 5 then show ?thesis by (simp only: spec_row_red)
  next
    case 6 then show ?thesis by (simp only: spec_row_black)
  next
    case 7 then show ?thesis by (simp only: spec_row_white)
  next
    case 8 then show ?thesis by (simp only: spec_row_green)
  qed
qed

lemma map_of_THEMES_known:
  assumes "name \<in> set (map fst THEMES)"
  shows "\<exists>p. map_of THEMES name = Some p \<and> (name, p) \<in> set THEMES"
proof -
  from assms have "map_of THEMES name \<noteq> None"
    by (simp add: map_of_eq_None_iff)
  then obtain p where "map_of THEMES name = Some p"
    by blast
  then show ?thesis
    by (blast dest: map_of_SomeD)
qed

lemma map_of_THEMES_unknown:
  "name \<notin> set (map fst THEMES) \<Longrightarrow> map_of THEMES name = None"
  by (simp add: map_of_eq_None_iff)

lemma roles_length: "length (roles p) = 11"
  by (simp add: roles_def)

text \<open>
  C6. For each of the eight theme names, \<^verbatim>\<open>set_theme\<close> succeeds and the following
  \<^verbatim>\<open>get_theme()\<close> returns the palette whose eleven roles are the row of that name in the
  specification's table.  For every other name \<^verbatim>\<open>set_theme\<close> fails and leaves the
  current theme as it was, and \<^verbatim>\<open>get_theme\<close> of that name returns the current palette.
\<close>

theorem set_theme_get_theme:
  "(name \<in> set get_all_themes \<longrightarrow>
      fst (set_theme name current) = True \<and>
      map_of spec_palette_table name
        = Some (roles (get_theme None (snd (set_theme name current)))) \<and>
      length (roles (get_theme None (snd (set_theme name current)))) = 11) \<and>
   (name \<notin> set get_all_themes \<longrightarrow>
      set_theme name current = (False, current) \<and>
      get_theme (Some name) current = current)"
proof (cases "name \<in> set (map fst THEMES)")
  case True
  then obtain p where p: "map_of THEMES name = Some p" "(name, p) \<in> set THEMES"
    using map_of_THEMES_known by blast
  have "map_of spec_palette_table name = Some (roles p)"
    using p(2) by (rule THEMES_rows)
  with True p(1) show ?thesis
    by (simp add: set_theme_def get_theme_def get_all_themes_def roles_length)
next
  case False
  then have "map_of THEMES name = None"
    by (rule map_of_THEMES_unknown)
  with False show ?thesis
    by (simp add: set_theme_def get_theme_def get_all_themes_def)
qed

theorem set_theme_get_theme_witness:
  "name_black \<in> set get_all_themes \<and>
   fst (set_theme name_black initial_current_theme) = True \<and>
   roles (get_theme None (snd (set_theme name_black initial_current_theme)))
     = [''#2C2C2C'', ''#4A4A4A'', ''#708090'', ''#1A1A1A'', ''#F0F0F0'', ''#00FF00'',
        ''#FFFF00'', ''#1E90FF'', ''#2C2C2C'', ''#1A1A1A'', ''#4A4A4A''] \<and>
   ''orange'' \<notin> set get_all_themes \<and>
   set_theme ''orange'' initial_current_theme = (False, initial_current_theme) \<and>
   get_theme (Some ''orange'') initial_current_theme = initial_current_theme"
proof -
  have k: "name_black \<in> set get_all_themes"
    by (simp add: get_all_themes_def THEMES_def)
  have u: "''orange'' \<notin> set get_all_themes"
    by (simp add: get_all_themes_def THEMES_def theme_names)
  have r: "map_of spec_palette_table name_black
      = Some [''#2C2C2C'', ''#4A4A4A'', ''#708090'', ''#1A1A1A'', ''#F0F0F0'', ''#00FF00'',
        ''#FFFF00'', ''#1E90FF'', ''#2C2C2C'', ''#1A1A1A'', ''#4A4A4A'']"
    by (simp add: spec_palette_table_def theme_names)
  from set_theme_get_theme [of name_black initial_current_theme] k r
  have b: "fst (set_theme name_black initial_current_theme) = True \<and>
      roles (get_theme None (snd (set_theme name_black initial_current_theme)))
     = [''#2C2C2C'', ''#4A4A4A'', ''#708090'', ''#1A1A1A'', ''#F0F0F0'', ''#00FF00'',
        ''#FFFF00'', ''#1E90FF'', ''#2C2C2C'', ''#1A1A1A'', ''#4A4A4A'']"
    by simp
  from set_theme_get_theme [of "''orange''" initial_current_theme] u
  have o: "set_theme ''orange'' initial_current_theme = (False, initial_current_theme) \<and>
      get_theme (Some ''orange'') initial_current_theme = initial_current_theme"
    by blast
  from k u b o show ?thesis
    by blast
qed

section \<open>Properties of the hexadecimal rendering\<close>

lemma hex_digit_value_hex_upper: "\<forall>d \<in> {0..<16}. hex_digit_value (hex_upper d) = Some d"
  by code_simp

lemma hex_upper_not_space:
  "\<forall>d \<in> {0..<16}. \<not> is_ascii_space (hex_upper d) \<and> hex_upper d \<noteq> CHR '' ''"
  by code_simp

lemma format_02X_digits:
  "\<exists>h l. format_02X b = [hex_upper h, hex_upper l] \<and> h < 16 \<and> l < 16 \<and> of_nat (h * 16 + l) = b"
proof -
  have "unat b < 256"
    using unsigned_less [of b] by simp
  then have "unat b div 16 < 16"
    by simp
  moreover have "unat b mod 16 < 16"
    by simp
  moreover have "(of_nat (unat b div 16 * 16 + unat b mod 16) :: byte) = b"
    by simp
  ultimately show ?thesis
    unfolding format_02X_def by blast
qed

lemma format_02X_no_space: "CHR '' '' \<notin> set (format_02X b)"
proof -
  obtain h l where "format_02X b = [hex_upper h, hex_upper l]" "h < 16" "l < 16"
    using format_02X_digits by blast
  then show ?thesis
    using hex_upper_not_space by auto
qed

lemma filter_spaces_join:
  "\<forall>x \<in> set xs. CHR '' '' \<notin> set x \<Longrightarrow>
     filter (\<lambda>c. c \<noteq> CHR '' '') (join '' '' xs) = concat xs"
proof (induction "'' ''" xs rule: join.induct)
  case 1 then show ?case by simp
next
  case (2 x) then show ?case by (auto simp: filter_id_conv)
next
  case (3 x y ys) then show ?case by (auto simp: filter_id_conv)
qed

lemma join_trailing:
  "xs \<noteq> [] \<Longrightarrow> join sep xs @ sep = concat (map (\<lambda>x. x @ sep) xs)"
  by (induction sep xs rule: join.induct) simp_all

lemma fromhex_pairs: "fromhex (concat (map format_02X bs)) = Inr bs"
proof (induction bs)
  case Nil
  then show ?case by simp
next
  case (Cons b bs)
  obtain h l where hl: "format_02X b = [hex_upper h, hex_upper l]" "h < 16" "l < 16"
      "of_nat (h * 16 + l) = b"
    using format_02X_digits by blast
  from hl(2,3) have "hex_digit_value (hex_upper h) = Some h" "hex_digit_value (hex_upper l) = Some l"
      "\<not> is_ascii_space (hex_upper h)"
    using hex_digit_value_hex_upper hex_upper_not_space by auto
  with hl(1,4) Cons.IH show ?case
    by simp
qed

lemma hex_rendering_parses_back:
  "send_bytes encode True senc nl (join '' '' (map format_02X bs) @ '' '') = Inr bs"
proof -
  have "filter (\<lambda>c. c \<noteq> CHR '' '') (join '' '' (map format_02X bs) @ '' '')
      = concat (map format_02X bs)"
    using filter_spaces_join [of "map format_02X bs"] format_02X_no_space by simp
  then show ?thesis
    by (simp add: send_bytes_def fromhex_pairs)
qed

text \<open>
  The claim C2 as it is written fails at the empty byte sequence: the rendering is then one
  space, not the empty sequence of pairs each followed by a space.
\<close>

theorem hex_rendering_empty_counterexample:
  "format_data ascii_decoder [] True ''utf-8'' ''replace'' = Inr '' '' \<and>
   format_data ascii_decoder [] True ''utf-8'' ''replace''
     \<noteq> Inr (concat (map (\<lambda>b. format_02X b @ '' '') []))"
  by (simp add: format_data_def)

text \<open>
  C2, amended.  For every non-empty byte sequence the hexadecimal rendering of the receive
  side is the sequence of upper-case two-digit pairs, each followed by a space; for the
  empty sequence it is a single space.  For every byte sequence, giving the rendering to the
  hexadecimal send path (all spaces removed, the rest parsed as pairs of digits) returns
  the original bytes.
\<close>

theorem hex_rendering_roundtrip:
  "(bs \<noteq> [] \<longrightarrow>
      format_data decode bs True codec errors
        = Inr (concat (map (\<lambda>b. format_02X b @ '' '') bs))) \<and>
   format_data decode [] True codec errors = Inr '' '' \<and>
   (\<exists>rendering. format_data decode bs True codec errors = Inr rendering \<and>
      send_bytes encode True send_codec newline rendering = Inr bs)"
  by (simp add: format_data_def join_trailing hex_rendering_parses_back comp_def)

theorem hex_rendering_roundtrip_witness:
  "[0x0A, 0xFF, 0x00] \<noteq> ([] :: bytes) \<and>
   format_data ascii_decoder [0x0A, 0xFF, 0x00] True ''utf-8'' ''replace'' = Inr ''0A FF 00 '' \<and>
   send_bytes (\<lambda>c e s. Inr []) True ''utf-8'' False ''0A FF 00 '' = Inr [0x0A, 0xFF, 0x00]"
proof -
  have r: "concat (map (\<lambda>b. format_02X b @ '' '') [0x0A, 0xFF, 0x00]) = ''0A FF 00 ''"
    by (simp add: format_02X_def hex_upper_def)
  note t = hex_rendering_roundtrip [of "[0x0A, 0xFF, 0x00]" ascii_decoder "''utf-8''"
      "''replace''" "\<lambda>c e s. Inr []" "''utf-8''" False]
  from t have "format_data ascii_decoder [0x0A, 0xFF, 0x00] True ''utf-8'' ''replace''
      = Inr (concat (map (\<lambda>b. format_02X b @ '' '') [0x0A, 0xFF, 0x00]))"
    by simp
  then have f: "format_data ascii_decoder [0x0A, 0xFF, 0x00] True ''utf-8'' ''replace''
      = Inr ''0A FF 00 ''"
    by (simp only: r)
  from t obtain rendering where
      "format_data ascii_decoder [0x0A, 0xFF, 0x00] True ''utf-8'' ''replace'' = Inr rendering"
      "send_bytes (\<lambda>c e s. Inr []) True ''utf-8'' False rendering = Inr [0x0A, 0xFF, 0x00]"
    by blast
  with f have "send_bytes (\<lambda>c e s. Inr []) True ''utf-8'' False ''0A FF 00 ''
      = Inr [0x0A, 0xFF, 0x00]"
    by simp
  with f show ?thesis
    by simp
qed

section \<open>The three copies of the receive formatting agree\<close>

text \<open>
  C5. For every byte sequence and every setting of hexadecimal mode, codec and error
  policy, the text the legacy serial worker makes, the text the generic receiver thread
  makes and the result of the formatting helper of the main window are the same: in
  hexadecimal mode the upper-case two-digit pairs joined by spaces with one more space at
  the end, otherwise the outcome of decoding with the codec and the policy (the text, or
  the same exception).
\<close>

theorem receive_formatting_agrees:
  "SerialThread_text decode w data
     = format_data decode data (hex_mode w) (encoding w) (error_handling w) \<and>
   DataReceiveThread_text decode w data
     = format_data decode data (hex_mode w) (encoding w) (error_handling w) \<and>
   (hex_mode w \<longrightarrow>
      format_data decode data (hex_mode w) (encoding w) (error_handling w)
        = Inr (join '' '' (map format_02X data) @ '' '')) \<and>
   (\<not> hex_mode w \<longrightarrow>
      format_data decode data (hex_mode w) (encoding w) (error_handling w)
        = decode (encoding w) (error_handling w) data)"
  by (simp add: SerialThread_text_def DataReceiveThread_text_def format_data_def)

theorem receive_formatting_agrees_witness:
  "SerialThread_text ascii_decoder
       \<lparr>hex_mode = True, encoding = ''ascii'', error_handling = ''replace''\<rparr> [0x4F, 0x4B]
     = Inr ''4F 4B '' \<and>
   DataReceiveThread_text ascii_decoder
       \<lparr>hex_mode = True, encoding = ''ascii'', error_handling = ''replace''\<rparr> [0x4F, 0x4B]
     = Inr ''4F 4B '' \<and>
   format_data ascii_decoder [0x4F, 0x4B] True ''ascii'' ''replace'' = Inr ''4F 4B '' \<and>
   SerialThread_text ascii_decoder
       \<lparr>hex_mode = False, encoding = ''ascii'', error_handling = ''replace''\<rparr> [0x4F, 0x4B]
     = Inr ''OK'' \<and>
   DataReceiveThread_text ascii_decoder
       \<lparr>hex_mode = False, encoding = ''ascii'', error_handling = ''replace''\<rparr> [0x4F, 0x4B]
     = Inr ''OK'' \<and>
   format_data ascii_decoder [0x4F, 0x4B] False ''ascii'' ''replace'' = Inr ''OK''"
proof -
  have h: "join '' '' (map format_02X [0x4F, 0x4B]) @ '' '' = ''4F 4B ''"
    by (simp add: format_02X_def hex_upper_def)
  have d: "ascii_decoder ''ascii'' ''replace'' [0x4F, 0x4B] = Inr ''OK''"
    by code_simp
  from receive_formatting_agrees [of ascii_decoder
      "\<lparr>hex_mode = True, encoding = ''ascii'', error_handling = ''replace''\<rparr>" "[0x4F, 0x4B]"]
    receive_formatting_agrees [of ascii_decoder
      "\<lparr>hex_mode = False, encoding = ''ascii'', error_handling = ''replace''\<rparr>" "[0x4F, 0x4B]"]
    h d
  show ?thesis
    by simp
qed

text \<open>
  In the workers the text is made only from a non-empty read; it is then what the helper of
  the main window returns, and a failure of the helper is the error signal of the worker.
\<close>

lemma SerialThread_pass_format_data:
  "data \<noteq> [] \<Longrightarrow>
   SerialThread_pass decode w (Inr data) =
     (case format_data decode data (hex_mode w) (encoding w) (error_handling w) of
        Inl e \<Rightarrow> ([error_occurred (receive_error_prefix @ message e)], False)
      | Inr text \<Rightarrow> ([data_received text], True))"
  by (simp add: SerialThread_pass_def SerialThread_text_def format_data_def)

lemma DataReceiveThread_pass_format_data:
  "data \<noteq> [] \<Longrightarrow>
   DataReceiveThread_pass decode w (Inr data) =
     (case format_data decode data (hex_mode w) (encoding w) (error_handling w) of
        Inl e \<Rightarrow> ([raw_data_received data, error_occurred (receive_error_prefix @ message e)], False)
      | Inr text \<Rightarrow> ([raw_data_received data, data_received text], True))"
  by (simp add: DataReceiveThread_pass_def DataReceiveThread_text_def format_data_def)

section \<open>Properties of the connection factory\<close>

lemma connection_types_keys:
  "map fst connection_types = [''serial'', ''tcp'', ''udp'', ''wifi'', ''ethernet'', ''bluetooth'']"
  by (simp add: connection_types_def)

lemma connection_types_unknown:
  "name \<notin> set (map fst connection_types) \<Longrightarrow> map_of connection_types name = None"
  by (simp add: map_of_eq_None_iff)

lemma connection_types_lookup:
  "map_of connection_types ''serial'' = Some new_serial"
  "map_of connection_types ''tcp'' = Some new_tcp"
  "map_of connection_types ''udp'' = Some new_udp"
  "map_of connection_types ''wifi'' = Some new_wifi"
  "map_of connection_types ''ethernet'' = Some new_ethernet"
  "map_of connection_types ''bluetooth'' = Some new_bluetooth"
  by (simp_all add: connection_types_def)

lemma expected_class_lookup:
  "map_of expected_class ''serial'' = Some ''SerialConnection''"
  "map_of expected_class ''tcp'' = Some ''TCPConnection''"
  "map_of expected_class ''udp'' = Some ''UDPConnection''"
  "map_of expected_class ''wifi'' = Some ''WiFiConnection''"
  "map_of expected_class ''ethernet'' = Some ''EthernetConnection''"
  "map_of expected_class ''bluetooth'' = Some ''BluetoothConnection''"
  by (simp_all add: expected_class_def)

lemma constructor_parameters_lookup:
  "map_of constructor_parameters ''serial'' = Some ([''port_name'', ''baudrate''], serial_defaults)"
  "map_of constructor_parameters ''tcp'' = Some ([''host'', ''port''], tcp_defaults)"
  "map_of constructor_parameters ''udp'' = Some ([''local_host'', ''local_port''], udp_defaults)"
  "map_of constructor_parameters ''wifi'' = Some ([''host'', ''port''], tcp_defaults)"
  "map_of constructor_parameters ''ethernet'' = Some ([''host'', ''port''], tcp_defaults)"
  "map_of constructor_parameters ''bluetooth'' = Some ([''address''], bluetooth_defaults)"
  by (simp_all add: constructor_parameters_def)

text \<open>
  What \<^verbatim>\<open>create_connection\<close> does once the class is found: the outcome of the constructor
  decides.
\<close>

lemma create_connection_made:
  assumes "map_of connection_types (lower ctype) = Some cls"
    and "cls bt kw = Inr obj"
  shows "create_connection bt self ctype kw
     = (Inr (length (objects self)),
        self\<lparr>objects := objects self @ [obj],
             connections := (connections self)(get_info obj \<mapsto> length (objects self)),
             current_connection := Some (length (objects self))\<rparr>)"
  using assms by (simp add: create_connection_def)

lemma create_connection_refused:
  assumes "map_of connection_types (lower ctype) = Some cls"
    and "cls bt kw = Inl e"
  shows "create_connection bt self ctype kw = (Inl e, self)"
  using assms by (simp add: create_connection_def)

lemma create_connection_found:
  assumes cls: "map_of connection_types (lower ctype) = Some cls"
    and cn: "map_of expected_class (lower ctype) = Some cn"
    and par: "map_of constructor_parameters (lower ctype) = Some (req, opt)"
    and made: "binds req opt kw \<Longrightarrow> \<exists>obj. cls bt kw = Inr obj \<and> class_name obj = cn"
    and refused: "\<not> binds req opt kw \<Longrightarrow> \<exists>e. cls bt kw = Inl e \<and> exc_class e = TypeError"
  shows "\<exists>req opt. map_of constructor_parameters (lower ctype) = Some (req, opt) \<and>
     (binds req opt kw \<longrightarrow>
       (\<exists>obj self'. create_connection bt self ctype kw = (Inr (length (objects self)), self') \<and>
          objects self' = objects self @ [obj] \<and>
          map_of expected_class (lower ctype) = Some (class_name obj) \<and>
          current_connection self' = Some (length (objects self)) \<and>
          connections self' = (connections self)(get_info obj \<mapsto> length (objects self)))) \<and>
     (\<not> binds req opt kw \<longrightarrow>
       (\<exists>e. create_connection bt self ctype kw = (Inl e, self) \<and> exc_class e = TypeError))"
proof -
  have made': "\<exists>obj self'.
      create_connection bt self ctype kw = (Inr (length (objects self)), self') \<and>
      objects self' = objects self @ [obj] \<and>
      map_of expected_class (lower ctype) = Some (class_name obj) \<and>
      current_connection self' = Some (length (objects self)) \<and>
      connections self' = (connections self)(get_info obj \<mapsto> length (objects self))"
    if "binds req opt kw"
  proof -
    from made that obtain obj where obj: "cls bt kw = Inr obj" "class_name obj = cn"
      by blast
    let ?self' = "self\<lparr>objects := objects self @ [obj],
        connections := (connections self)(get_info obj \<mapsto> length (objects self)),
        current_connection := Some (length (objects self))\<rparr>"
    have "create_connection bt self ctype kw = (Inr (length (objects self)), ?self')"
      using cls obj(1) by (rule create_connection_made)
    moreover have "objects ?self' = objects self @ [obj]"
        "current_connection ?self' = Some (length (objects self))"
        "connections ?self' = (connections self)(get_info obj \<mapsto> length (objects self))"
      by simp_all
    moreover have "map_of expected_class (lower ctype) = Some (class_name obj)"
      using cn obj(2) by simp
    ultimately show ?thesis
      by blast
  qed
  have refused': "\<exists>e. create_connection bt self ctype kw = (Inl e, self) \<and> exc_class e = TypeError"
    if "\<not> binds req opt kw"
  proof -
    from refused that obtain e where e: "cls bt kw = Inl e" "exc_class e = TypeError"
      by blast
    have "create_connection bt self ctype kw = (Inl e, self)"
      using cls e(1) by (rule create_connection_refused)
    with e(2) show ?thesis
      by blast
  qed
  from par made' refused' show ?thesis
    by blast
qed

lemma new_serial_cases:
  "binds [''port_name'', ''baudrate''] serial_defaults kw
     \<Longrightarrow> \<exists>obj. new_serial bt kw = Inr obj \<and> class_name obj = ''SerialConnection''"
  "\<not> binds [''port_name'', ''baudrate''] serial_defaults kw
     \<Longrightarrow> \<exists>e. new_serial bt kw = Inl e \<and> exc_class e = TypeError"
  by (simp_all add: new_serial_def bind_error_def)

lemma new_tcp_cases:
  "binds [''host'', ''port''] tcp_defaults kw
     \<Longrightarrow> \<exists>obj. new_tcp bt kw = Inr obj \<and> class_name obj = ''TCPConnection''"
  "\<not> binds [''host'', ''port''] tcp_defaults kw
     \<Longrightarrow> \<exists>e. new_tcp bt kw = Inl e \<and> exc_class e = TypeError"
  by (simp_all add: new_tcp_def bind_error_def)

lemma new_udp_cases:
  "binds [''local_host'', ''local_port''] udp_defaults kw
     \<Longrightarrow> \<exists>obj. new_udp bt kw = Inr obj \<and> class_name obj = ''UDPConnection''"
  "\<not> binds [''local_host'', ''local_port''] udp_defaults kw
     \<Longrightarrow> \<exists>e. new_udp bt kw = Inl e \<and> exc_class e = TypeError"
  by (simp_all add: new_udp_def bind_error_def)

lemma new_wifi_cases:
  "binds [''host'', ''port''] tcp_defaults kw
     \<Longrightarrow> \<exists>obj. new_wifi bt kw = Inr obj \<and> class_name obj = ''WiFiConnection''"
  "\<not> binds [''host'', ''port''] tcp_defaults kw
     \<Longrightarrow> \<exists>e. new_wifi bt kw = Inl e \<and> exc_class e = TypeError"
  by (simp_all add: new_wifi_def bind_error_def)

lemma new_ethernet_cases:
  "binds [''host'', ''port''] tcp_defaults kw
     \<Longrightarrow> \<exists>obj. new_ethernet bt kw = Inr obj \<and> class_name obj = ''EthernetConnection''"
  "\<not> binds [''host'', ''port''] tcp_defaults kw
     \<Longrightarrow> \<exists>e. new_ethernet bt kw = Inl e \<and> exc_class e = TypeError"
  by (simp_all add: new_ethernet_def bind_error_def)

lemma new_bluetooth_cases:
  "binds [''address''] bluetooth_defaults kw
     \<Longrightarrow> \<exists>obj. new_bluetooth bt kw = Inr obj \<and> class_name obj = ''BluetoothConnection''"
  "\<not> binds [''address''] bluetooth_defaults kw
     \<Longrightarrow> \<exists>e. new_bluetooth bt kw = Inl e \<and> exc_class e = TypeError"
  by (simp_all add: new_bluetooth_def bind_error_def)

lemma create_connection_known:
  assumes "lower ctype \<in> set [''serial'', ''tcp'', ''udp'', ''wifi'', ''ethernet'', ''bluetooth'']"
  shows "\<exists>req opt. map_of constructor_parameters (lower ctype) = Some (req, opt) \<and>
     (binds req opt kw \<longrightarrow>
       (\<exists>obj self'. create_connection bt self ctype kw = (Inr (length (objects self)), self') \<and>
          objects self' = objects self @ [obj] \<and>
          map_of expected_class (lower ctype) = Some (class_name obj) \<and>
          current_connection self' = Some (length (objects self)) \<and>
          connections self' = (connections self)(get_info obj \<mapsto> length (objects self)))) \<and>
     (\<not> binds req opt kw \<longrightarrow>
       (\<exists>e. create_connection bt self ctype kw = (Inl e, self) \<and> exc_class e = TypeError))"
proof -
  from assms have "lower ctype = ''serial'' \<or> lower ctype = ''tcp'' \<or> lower ctype = ''udp'' \<or>
      lower ctype = ''wifi'' \<or> lower ctype = ''ethernet'' \<or> lower ctype = ''bluetooth''"
    by simp
  then show ?thesis
  proof (elim disjE)
    assume n: "lower ctype = ''serial''"
    show ?thesis
      by (rule create_connection_found [where cls = new_serial and cn = "''SerialConnection''"
            and req = "[''port_name'', ''baudrate'']" and opt = serial_defaults])
        (simp_all only: n connection_types_lookup expected_class_lookup
          constructor_parameters_lookup new_serial_cases not_False_eq_True)
  next
    assume n: "lower ctype = ''tcp''"
    show ?thesis
      by (rule create_connection_found [where cls = new_tcp and cn = "''TCPConnection''"
            and req = "[''host'', ''port'']" and opt = tcp_defaults])
        (simp_all only: n connection_types_lookup expected_class_lookup
          constructor_parameters_lookup new_tcp_cases not_False_eq_True)
  next
    assume n: "lower ctype = ''udp''"
    show ?thesis
      by (rule create_connection_found [where cls = new_udp and cn = "''UDPConnection''"
            and req = "[''local_host'', ''local_port'']" and opt = udp_defaults])
        (simp_all only: n connection_types_lookup expected_class_lookup
          constructor_parameters_lookup new_udp_cases not_False_eq_True)
  next
    assume n: "lower ctype = ''wifi''"
    show ?thesis
      by (rule create_connection_found [where cls = new_wifi and cn = "''WiFiConnection''"
            and req = "[''host'', ''port'']" and opt = tcp_defaults])
        (simp_all only: n connection_types_lookup expected_class_lookup
          constructor_parameters_lookup new_wifi_cases not_False_eq_True)
  next
    assume n: "lower ctype = ''ethernet''"
    show ?thesis
      by (rule create_connection_found [where cls = new_ethernet and cn = "''EthernetConnection''"
            and req = "[''host'', ''port'']" and opt = tcp_defaults])
        (simp_all only: n connection_types_lookup expected_class_lookup
          constructor_parameters_lookup new_ethernet_cases not_False_eq_True)
  next
    assume n: "lower ctype = ''bluetooth''"
    show ?thesis
      by (rule create_connection_found [where cls = new_bluetooth and cn = "''BluetoothConnection''"
            and req = "[''address'']" and opt = bluetooth_defaults])
        (simp_all only: n connection_types_lookup expected_class_lookup
          constructor_parameters_lookup new_bluetooth_cases not_False_eq_True)
  qed
qed

lemma create_connection_same_lower:
  assumes "lower ctype = lower ctype'"
    and "lower ctype \<in> set [''serial'', ''tcp'', ''udp'', ''wifi'', ''ethernet'', ''bluetooth'']"
  shows "create_connection bt self ctype kw = create_connection bt self ctype' kw"
proof -
  from assms(2) have "lower ctype \<in> set (map fst connection_types)"
    by (simp only: connection_types_keys)
  then have "map_of connection_types (lower ctype) \<noteq> None"
    by (simp only: map_of_eq_None_iff set_map not_not)
  then obtain cls where "map_of connection_types (lower ctype) = Some cls"
    by blast
  with assms(1) show ?thesis
    by (simp add: create_connection_def)
qed

lemma create_connection_unknown:
  assumes "lower ctype \<notin> set [''serial'', ''tcp'', ''udp'', ''wifi'', ''ethernet'', ''bluetooth'']"
  shows "create_connection bt self ctype kw
     = (Inl (Exc ValueError (unsupported_type_prefix @ ctype)), self)"
proof -
  have "lower ctype \<notin> set (map fst connection_types)"
    unfolding connection_types_keys by (rule assms)
  then have "map_of connection_types (lower ctype) = None"
    by (rule connection_types_unknown)
  then show ?thesis
    by (simp add: create_connection_def)
qed

text \<open>The calls the main window makes, and one with a mixed-case name for each class.\<close>

lemma lower_examples:
  "lower ''SERIAL'' = ''serial''" "lower ''serial'' = ''serial''" "lower ''Tcp'' = ''tcp''"
  "lower ''UDP'' = ''udp''" "lower ''WiFi'' = ''wifi''" "lower ''Ethernet'' = ''ethernet''"
  "lower ''BlueTooth'' = ''bluetooth''" "lower ''carrier-pigeon'' = ''carrier-pigeon''"
  by code_simp+

lemma binds_examples:
  "binds [''port_name'', ''baudrate''] serial_defaults serial_kwargs_example"
  "binds [''host'', ''port''] tcp_defaults tcp_kwargs_example"
  "binds [''local_host'', ''local_port''] udp_defaults udp_kwargs_example"
  "binds [''address''] bluetooth_defaults bluetooth_kwargs_example"
  "\<not> binds [''host'', ''port''] tcp_defaults serial_kwargs_example"
  by (simp_all add: binds_def serial_defaults_def tcp_defaults_def udp_defaults_def
      bluetooth_defaults_def serial_kwargs_example_def tcp_kwargs_example_def
      udp_kwargs_example_def bluetooth_kwargs_example_def)

lemma created_examples:
  "create_connection False ConnectionManager ''SERIAL'' serial_kwargs_example
     = (Inr 0, \<lparr>objects = [OfSerial serial_object_example], current_connection = Some 0,
          connections = [Serial_get_info serial_object_example \<mapsto> 0]\<rparr>)"
  "create_connection False ConnectionManager ''Tcp'' tcp_kwargs_example
     = (Inr 0, \<lparr>objects = [OfTCP tcp_object_example], current_connection = Some 0,
          connections = [TCP_get_info tcp_object_example \<mapsto> 0]\<rparr>)"
  "create_connection False ConnectionManager ''UDP'' udp_kwargs_example
     = (Inr 0, \<lparr>objects = [OfUDP udp_object_example], current_connection = Some 0,
          connections = [UDP_get_info udp_object_example \<mapsto> 0]\<rparr>)"
  "create_connection False ConnectionManager ''WiFi'' tcp_kwargs_example
     = (Inr 0, \<lparr>objects = [OfWiFi (tcp_object_example\<lparr>connection_type := ''WiFi''\<rparr>)],
          current_connection = Some 0,
          connections = [WiFi_get_info (tcp_object_example\<lparr>connection_type := ''WiFi''\<rparr>) \<mapsto> 0]\<rparr>)"
  "create_connection False ConnectionManager ''Ethernet'' tcp_kwargs_example
     = (Inr 0, \<lparr>objects = [OfEthernet (tcp_object_example\<lparr>connection_type := ''Ethernet''\<rparr>)],
          current_connection = Some 0,
          connections
            = [Ethernet_get_info (tcp_object_example\<lparr>connection_type := ''Ethernet''\<rparr>) \<mapsto> 0]\<rparr>)"
  "create_connection False ConnectionManager ''BlueTooth'' bluetooth_kwargs_example
     = (Inr 0, \<lparr>objects = [OfBluetooth bluetooth_object_example], current_connection = Some 0,
          connections = [Bluetooth_get_info bluetooth_object_example \<mapsto> 0]\<rparr>)"
  by (simp_all add: create_connection_def lower_examples connection_types_lookup
      new_serial_def new_tcp_def new_udp_def new_wifi_def new_ethernet_def new_bluetooth_def
      binds_def ConnectionManager_def arg_def
      serial_defaults_def tcp_defaults_def udp_defaults_def bluetooth_defaults_def
      serial_kwargs_example_def tcp_kwargs_example_def udp_kwargs_example_def
      bluetooth_kwargs_example_def serial_object_example_def tcp_object_example_def
      udp_object_example_def bluetooth_object_example_def
      WiFiConnection_def EthernetConnection_def)

lemma manager_example_made:
  "snd (create_connection False ConnectionManager ''serial'' serial_kwargs_example)
     = manager_example"
  by (simp add: create_connection_def lower_examples connection_types_lookup new_serial_def
      binds_def arg_def serial_defaults_def serial_kwargs_example_def serial_object_example_def
      ConnectionManager_def manager_example_def)

text \<open>
  C4. \<^verbatim>\<open>create_connection\<close> looks the type name up after lowering it, so two names with
  the same lower-case form, one of serial, tcp, udp, wifi, ethernet, bluetooth, give the
  same result.  For such a name the class has a constructor whose parameters are those of
  \<open>constructor_parameters\<close>, and the call is accepted exactly when the keyword arguments
  fit them: then it returns a new object of the class of that name, which is added to the
  objects, becomes the current connection and is entered in the look-up table under its
  display string; otherwise the constructor raises \<^verbatim>\<open>TypeError\<close> and the manager is as
  before.  For every other name the call raises \<^verbatim>\<open>ValueError\<close> and the manager (the
  current connection, the look-up table and the objects) is as before.
\<close>

theorem create_connection_spec:
  "(lower ctype = lower ctype' \<and>
    lower ctype \<in> set [''serial'', ''tcp'', ''udp'', ''wifi'', ''ethernet'', ''bluetooth''] \<longrightarrow>
      create_connection bt self ctype kw = create_connection bt self ctype' kw) \<and>
   (lower ctype \<in> set [''serial'', ''tcp'', ''udp'', ''wifi'', ''ethernet'', ''bluetooth''] \<longrightarrow>
     (\<exists>req opt. map_of constructor_parameters (lower ctype) = Some (req, opt) \<and>
       (binds req opt kw \<longrightarrow>
         (\<exists>obj self'. create_connection bt self ctype kw = (Inr (length (objects self)), self') \<and>
            objects self' = objects self @ [obj] \<and>
            map_of expected_class (lower ctype) = Some (class_name obj) \<and>
            current_connection self' = Some (length (objects self)) \<and>
            connections self' = (connections self)(get_info obj \<mapsto> length (objects self)))) \<and>
       (\<not> binds req opt kw \<longrightarrow>
         (\<exists>e. create_connection bt self ctype kw = (Inl e, self) \<and> exc_class e = TypeError)))) \<and>
   (lower ctype \<notin> set [''serial'', ''tcp'', ''udp'', ''wifi'', ''ethernet'', ''bluetooth''] \<longrightarrow>
     create_connection bt self ctype kw
       = (Inl (Exc ValueError (unsupported_type_prefix @ ctype)), self))"
proof (intro conjI impI)
  assume "lower ctype = lower ctype' \<and>
    lower ctype \<in> set [''serial'', ''tcp'', ''udp'', ''wifi'', ''ethernet'', ''bluetooth'']"
  then show "create_connection bt self ctype kw = create_connection bt self ctype' kw"
    using create_connection_same_lower [of ctype ctype' bt self kw] by blast
next
  assume "lower ctype \<in> set [''serial'', ''tcp'', ''udp'', ''wifi'', ''ethernet'', ''bluetooth'']"
  then show "\<exists>req opt. map_of constructor_parameters (lower ctype) = Some (req, opt) \<and>
     (binds req opt kw \<longrightarrow>
       (\<exists>obj self'. create_connection bt self ctype kw = (Inr (length (objects self)), self') \<and>
          objects self' = objects self @ [obj] \<and>
          map_of expected_class (lower ctype) = Some (class_name obj) \<and>
          current_connection self' = Some (length (objects self)) \<and>
          connections self' = (connections self)(get_info obj \<mapsto> length (objects self)))) \<and>
     (\<not> binds req opt kw \<longrightarrow>
       (\<exists>e. create_connection bt self ctype kw = (Inl e, self) \<and> exc_class e = TypeError))"
    by (rule create_connection_known)
next
  assume "lower ctype \<notin> set [''serial'', ''tcp'', ''udp'', ''wifi'', ''ethernet'', ''bluetooth'']"
  then show "create_connection bt self ctype kw
      = (Inl (Exc ValueError (unsupported_type_prefix @ ctype)), self)"
    by (rule create_connection_unknown)
qed

theorem create_connection_spec_witness:
  "lower ''SERIAL'' = lower ''serial'' \<and>
   lower ''SERIAL'' \<in> set [''serial'', ''tcp'', ''udp'', ''wifi'', ''ethernet'', ''bluetooth''] \<and>
   create_connection False ConnectionManager ''SERIAL'' serial_kwargs_example
     = create_connection False ConnectionManager ''serial'' serial_kwargs_example \<and>
   binds [''port_name'', ''baudrate''] serial_defaults serial_kwargs_example \<and>
   fst (create_connection False ConnectionManager ''SERIAL'' serial_kwargs_example) = Inr 0 \<and>
   map class_name (objects (snd (create_connection False ConnectionManager ''SERIAL''
       serial_kwargs_example))) = [''SerialConnection''] \<and>
   current_connection (snd (create_connection False ConnectionManager ''SERIAL''
       serial_kwargs_example)) = Some 0 \<and>
   binds [''host'', ''port''] tcp_defaults tcp_kwargs_example \<and>
   fst (create_connection False ConnectionManager ''Tcp'' tcp_kwargs_example) = Inr 0 \<and>
   map class_name (objects (snd (create_connection False ConnectionManager ''Tcp''
       tcp_kwargs_example))) = [''TCPConnection''] \<and>
   current_connection (snd (create_connection False ConnectionManager ''Tcp''
       tcp_kwargs_example)) = Some 0 \<and>
   binds [''local_host'', ''local_port''] udp_defaults udp_kwargs_example \<and>
   fst (create_connection False ConnectionManager ''UDP'' udp_kwargs_example) = Inr 0 \<and>
   map class_name (objects (snd (create_connection False ConnectionManager ''UDP''
       udp_kwargs_example))) = [''UDPConnection''] \<and>
   current_connection (snd (create_connection False ConnectionManager ''UDP''
       udp_kwargs_example)) = Some 0 \<and>
   fst (create_connection False ConnectionManager ''WiFi'' tcp_kwargs_example) = Inr 0 \<and>
   map class_name (objects (snd (create_connection False ConnectionManager ''WiFi''
       tcp_kwargs_example))) = [''WiFiConnection''] \<and>
   current_connection (snd (create_connection False ConnectionManager ''WiFi''
       tcp_kwargs_example)) = Some 0 \<and>
   fst (create_connection False ConnectionManager ''Ethernet'' tcp_kwargs_example) = Inr 0 \<and>
   map class_name (objects (snd (create_connection False ConnectionManager ''Ethernet''
       tcp_kwargs_example))) = [''EthernetConnection''] \<and>
   current_connection (snd (create_connection False ConnectionManager ''Ethernet''
       tcp_kwargs_example)) = Some 0 \<and>
   binds [''address''] bluetooth_defaults bluetooth_kwargs_example \<and>
   fst (create_connection False ConnectionManager ''BlueTooth'' bluetooth_kwargs_example)
     = Inr 0 \<and>
   map class_name (objects (snd (create_connection False ConnectionManager ''BlueTooth''
       bluetooth_kwargs_example))) = [''BluetoothConnection''] \<and>
   current_connection (snd (create_connection False ConnectionManager ''BlueTooth''
       bluetooth_kwargs_example)) = Some 0 \<and>
   \<not> binds [''host'', ''port''] tcp_defaults serial_kwargs_example \<and>
   snd (create_connection False manager_example ''tcp'' serial_kwargs_example)
     = manager_example \<and>
   lower ''carrier-pigeon''
     \<notin> set [''serial'', ''tcp'', ''udp'', ''wifi'', ''ethernet'', ''bluetooth''] \<and>
   create_connection False manager_example ''carrier-pigeon'' serial_kwargs_example
     = (Inl (Exc ValueError (unsupported_type_prefix @ ''carrier-pigeon'')), manager_example)"
proof -
  have made: "fst (create_connection False ConnectionManager ctype kw) = Inr 0 \<and>
      map class_name (objects (snd (create_connection False ConnectionManager ctype kw))) = [cn] \<and>
      current_connection (snd (create_connection False ConnectionManager ctype kw)) = Some 0"
    if name: "lower ctype = name"
      and known: "name \<in> set [''serial'', ''tcp'', ''udp'', ''wifi'', ''ethernet'', ''bluetooth'']"
      and par: "map_of constructor_parameters name = Some (req, opt)"
      and fit: "binds req opt kw"
      and cls: "map_of expected_class name = Some cn"
    for ctype name kw req opt cn
  proof -
    from create_connection_spec [of ctype ctype False ConnectionManager kw] name known
    obtain req' opt' where p: "map_of constructor_parameters (lower ctype) = Some (req', opt')"
      and m: "binds req' opt' kw \<longrightarrow>
         (\<exists>obj self'. create_connection False ConnectionManager ctype kw
              = (Inr (length (objects ConnectionManager)), self') \<and>
            objects self' = objects ConnectionManager @ [obj] \<and>
            map_of expected_class (lower ctype) = Some (class_name obj) \<and>
            current_connection self' = Some (length (objects ConnectionManager)) \<and>
            connections self'
              = (connections ConnectionManager)(get_info obj \<mapsto> length (objects ConnectionManager)))"
      by blast
    from p par name have "req' = req" "opt' = opt"
      by simp_all
    with m fit obtain obj self' where o:
        "create_connection False ConnectionManager ctype kw
           = (Inr (length (objects ConnectionManager)), self')"
        "objects self' = objects ConnectionManager @ [obj]"
        "map_of expected_class (lower ctype) = Some (class_name obj)"
        "current_connection self' = Some (length (objects ConnectionManager))"
      by blast
    from o(3) cls name have "class_name obj = cn"
      by simp
    with o(1,2,4) show ?thesis
      by (simp add: ConnectionManager_def)
  qed
  have same: "create_connection False ConnectionManager ''SERIAL'' serial_kwargs_example
      = create_connection False ConnectionManager ''serial'' serial_kwargs_example"
    using create_connection_spec [of "''SERIAL''" "''serial''" False ConnectionManager
        serial_kwargs_example]
    by (simp add: lower_examples)
  from create_connection_spec [of "''tcp''" "''tcp''" False manager_example serial_kwargs_example]
  obtain req opt where p: "map_of constructor_parameters (lower ''tcp'') = Some (req, opt)"
    and r: "\<not> binds req opt serial_kwargs_example \<longrightarrow>
       (\<exists>e. create_connection False manager_example ''tcp'' serial_kwargs_example
          = (Inl e, manager_example) \<and> exc_class e = TypeError)"
    by (auto simp: lower_def lower_char_def)
  from p have "req = [''host'', ''port'']" "opt = tcp_defaults"
    by (simp_all add: lower_def lower_char_def constructor_parameters_lookup)
  with r have refused: "snd (create_connection False manager_example ''tcp'' serial_kwargs_example)
      = manager_example"
    by (auto simp: binds_examples)
  have unknown: "create_connection False manager_example ''carrier-pigeon'' serial_kwargs_example
      = (Inl (Exc ValueError (unsupported_type_prefix @ ''carrier-pigeon'')), manager_example)"
    using create_connection_spec [of "''carrier-pigeon''" "''x''" False manager_example
        serial_kwargs_example]
    by (simp add: lower_examples)
  note m1 = made [OF lower_examples(1) _ constructor_parameters_lookup(1) binds_examples(1)
      expected_class_lookup(1)]
  note m2 = made [OF lower_examples(3) _ constructor_parameters_lookup(2) binds_examples(2)
      expected_class_lookup(2)]
  note m3 = made [OF lower_examples(4) _ constructor_parameters_lookup(3) binds_examples(3)
      expected_class_lookup(3)]
  note m4 = made [OF lower_examples(5) _ constructor_parameters_lookup(4) binds_examples(2)
      expected_class_lookup(4)]
  note m5 = made [OF lower_examples(6) _ constructor_parameters_lookup(5) binds_examples(2)
      expected_class_lookup(5)]
  note m6 = made [OF lower_examples(7) _ constructor_parameters_lookup(6) binds_examples(4)
      expected_class_lookup(6)]
  have l: "lower ''SERIAL'' = lower ''serial''"
      "lower ''SERIAL'' \<in> set [''serial'', ''tcp'', ''udp'', ''wifi'', ''ethernet'', ''bluetooth'']"
      "lower ''carrier-pigeon''
         \<notin> set [''serial'', ''tcp'', ''udp'', ''wifi'', ''ethernet'', ''bluetooth'']"
    by (simp_all add: lower_examples)
  show ?thesis
    by (intro conjI l same refused unknown binds_examples
        m1 [THEN conjunct1] m1 [THEN conjunct2, THEN conjunct1] m1 [THEN conjunct2, THEN conjunct2]
        m2 [THEN conjunct1] m2 [THEN conjunct2, THEN conjunct1] m2 [THEN conjunct2, THEN conjunct2]
        m3 [THEN conjunct1] m3 [THEN conjunct2, THEN conjunct1] m3 [THEN conjunct2, THEN conjunct2]
        m4 [THEN conjunct1] m4 [THEN conjunct2, THEN conjunct1] m4 [THEN conjunct2, THEN conjunct2]
        m5 [THEN conjunct1] m5 [THEN conjunct2, THEN conjunct1] m5 [THEN conjunct2, THEN conjunct2]
        m6 [THEN conjunct1] m6 [THEN conjunct2, THEN conjunct1] m6 [THEN conjunct2, THEN conjunct2])
      simp_all
qed

section \<open>Properties of \<^verbatim>\<open>disconnect\<close>\<close>













section \<open>A TCP server without a client\<close>

text \<open>
  C10. For a connection of class \<^verbatim>\<open>TCPConnection\<close>, and so for \<^verbatim>\<open>WiFiConnection\<close> and
  \<^verbatim>\<open>EthernetConnection\<close>, which inherit both methods: in server mode with no client socket,
  \<^verbatim>\<open>send\<close> returns 0 and \<^verbatim>\<open>receive\<close> returns the empty bytes, for every data and whatever
  the sockets would do; neither call touches a socket, and neither raises.
\<close>

theorem tcp_server_without_client:
  "truthy (is_server self) \<and> client_socket self = None \<longrightarrow>
     TCP_send os self data = (Inr 0, []) \<and> TCP_receive os self = (Inr [], [])"
  by (simp add: TCP_send_def TCP_receive_def)

theorem tcp_server_without_client_witness:
  "truthy (is_server ((TCPConnection (PStr ''0.0.0.0'') (PInt 8080) (PBool True))
       \<lparr>is_connected := True, tcp_socket := Some 3\<rparr>)) \<and>
   client_socket ((TCPConnection (PStr ''0.0.0.0'') (PInt 8080) (PBool True))
       \<lparr>is_connected := True, tcp_socket := Some 3\<rparr>) = None \<and>
   TCP_send \<lparr>send_outcome = \<lambda>s d. Inr (length d), recv_outcome = \<lambda>s. Inr [0x41]\<rparr>
       ((TCPConnection (PStr ''0.0.0.0'') (PInt 8080) (PBool True))
          \<lparr>is_connected := True, tcp_socket := Some 3\<rparr>) [0x01, 0x02]
     = (Inr 0, []) \<and>
   TCP_receive \<lparr>send_outcome = \<lambda>s d. Inr (length d), recv_outcome = \<lambda>s. Inr [0x41]\<rparr>
       ((TCPConnection (PStr ''0.0.0.0'') (PInt 8080) (PBool True))
          \<lparr>is_connected := True, tcp_socket := Some 3\<rparr>)
     = (Inr [], [])"
proof -
  let ?c = "(TCPConnection (PStr ''0.0.0.0'') (PInt 8080) (PBool True))
       \<lparr>is_connected := True, tcp_socket := Some 3\<rparr>"
  have h: "truthy (is_server ?c) \<and> client_socket ?c = None"
    by (simp add: TCPConnection_def)
  with tcp_server_without_client [of ?c
      "\<lparr>send_outcome = \<lambda>s d. Inr (length d), recv_outcome = \<lambda>s. Inr [0x41]\<rparr>" "[0x01, 0x02]"]
  show ?thesis
    by blast
qed

section \<open>Properties of PresetManager.add\_preset\<close>

lemma add_preset_rejected:
  "preset_text = [] \<or> preset_text \<in> set presets \<Longrightarrow>
     add_preset presets preset_text = (False, presets)"
  by (auto simp: add_preset_def)

lemma add_preset_accepted:
  "preset_text \<noteq> [] \<Longrightarrow> preset_text \<notin> set presets \<Longrightarrow>
     add_preset presets preset_text = (True, presets @ [preset_text])"
  by (simp add: add_preset_def)

text \<open>
  C7. \<^verbatim>\<open>add_preset\<close> returns false and leaves the list as it is when the text is empty
  or already in the list.  For every other text it returns true, the list is one longer,
  the new text is its last element, and every earlier preset is still at its index.
\<close>

theorem add_preset_spec:
  "(preset_text = [] \<or> preset_text \<in> set presets \<longrightarrow>
      add_preset presets preset_text = (False, presets)) \<and>
   (preset_text \<noteq> [] \<and> preset_text \<notin> set presets \<longrightarrow>
      fst (add_preset presets preset_text) = True \<and>
      length (snd (add_preset presets preset_text)) = length presets + 1 \<and>
      last (snd (add_preset presets preset_text)) = preset_text \<and>
      (\<forall>i < length presets. snd (add_preset presets preset_text) ! i = presets ! i))"
  by (auto simp: add_preset_def nth_append)

theorem add_preset_spec_witness:
  "add_preset [''Hello, World!'', ''1234567890''] ''1234567890''
     = (False, [''Hello, World!'', ''1234567890'']) \<and>
   add_preset [''Hello, World!'', ''1234567890''] ''''
     = (False, [''Hello, World!'', ''1234567890'']) \<and>
   fst (add_preset [''Hello, World!'', ''1234567890''] ''AT'') = True \<and>
   length (snd (add_preset [''Hello, World!'', ''1234567890''] ''AT'')) = 3 \<and>
   last (snd (add_preset [''Hello, World!'', ''1234567890''] ''AT'')) = ''AT'' \<and>
   snd (add_preset [''Hello, World!'', ''1234567890''] ''AT'') ! 0 = ''Hello, World!'' \<and>
   snd (add_preset [''Hello, World!'', ''1234567890''] ''AT'') ! 1 = ''1234567890''"
  using add_preset_spec [of "''1234567890''" "[''Hello, World!'', ''1234567890'']"]
    add_preset_spec [of "''''" "[''Hello, World!'', ''1234567890'']"]
    add_preset_spec [of "''AT''" "[''Hello, World!'', ''1234567890'']"]
  by (simp add: add_preset_def)

section \<open>Properties of the preset files\<close>

lemma write_translate_line:
  "CHR 0x0A \<notin> set p \<Longrightarrow> write_translate sep (p @ [CHR 0x0A]) = p @ sep"
proof -
  assume "CHR 0x0A \<notin> set p"
  then have "concat (map (\<lambda>c. if c = CHR 0x0A then sep else [c]) p) = p"
    by (induction p) auto
  then show ?thesis
    by (simp add: write_translate_def)
qed

lemma universal_newlines_line:
  assumes "CHR 0x0D \<notin> set p" and "sep = [CHR 0x0A] \<or> sep = [CHR 0x0D, CHR 0x0A]"
  shows "universal_newlines (p @ sep @ rest) = p @ CHR 0x0A # universal_newlines rest"
  using assms(1)
proof (induction p)
  case Nil
  from assms(2) show ?case
    by auto
next
  case (Cons c p)
  then show ?case
    by auto
qed

lemma universal_newlines_lines:
  assumes "\<forall>p \<in> set ps. CHR 0x0D \<notin> set p" and "sep = [CHR 0x0A] \<or> sep = [CHR 0x0D, CHR 0x0A]"
  shows "universal_newlines (concat (map (\<lambda>p. p @ sep) ps)) = concat (map (\<lambda>p. p @ [CHR 0x0A]) ps)"
  using assms(1)
proof (induction ps)
  case Nil
  then show ?case by simp
next
  case (Cons p ps)
  then have "universal_newlines (p @ sep @ concat (map (\<lambda>p. p @ sep) ps))
      = p @ CHR 0x0A # universal_newlines (concat (map (\<lambda>p. p @ sep) ps))"
    using universal_newlines_line [OF _ assms(2)] by simp
  with Cons show ?case
    by simp
qed

lemma file_lines_line:
  "CHR 0x0A \<notin> set p \<Longrightarrow>
   file_lines line (p @ CHR 0x0A # rest) = (line @ p @ [CHR 0x0A]) # file_lines [] rest"
  by (induction p arbitrary: line) auto

lemma file_lines_lines:
  "\<forall>p \<in> set ps. CHR 0x0A \<notin> set p \<Longrightarrow>
   file_lines [] (concat (map (\<lambda>p. p @ [CHR 0x0A]) ps)) = map (\<lambda>p. p @ [CHR 0x0A]) ps"
proof (induction ps)
  case Nil
  then show ?case by simp
next
  case (Cons p ps)
  then show ?case
    using file_lines_line [of p "[]" "concat (map (\<lambda>p. p @ [CHR 0x0A]) ps)"] by simp
qed

lemma dropWhile_absent: "x \<notin> set xs \<Longrightarrow> dropWhile (\<lambda>c. c = x) xs = xs"
  by (cases xs) auto

lemma rstrip_newline_line: "CHR 0x0A \<notin> set p \<Longrightarrow> rstrip_newline (p @ [CHR 0x0A]) = p"
  using dropWhile_absent [of "CHR 0x0A" "rev p"] by (simp add: rstrip_newline_def)

lemma read_back:
  assumes "\<forall>p \<in> set ps. CHR 0x0A \<notin> set p \<and> CHR 0x0D \<notin> set p"
  shows "map rstrip_newline (file_lines [] (universal_newlines
      (concat (map (\<lambda>p. write_translate (os_linesep fs) (p @ [CHR 0x0A])) ps)))) = ps"
proof -
  have sep: "os_linesep fs = [CHR 0x0A] \<or> os_linesep fs = [CHR 0x0D, CHR 0x0A]"
    by (simp add: os_linesep_def)
  have a: "map (\<lambda>p. write_translate (os_linesep fs) (p @ [CHR 0x0A])) ps
      = map (\<lambda>p. p @ os_linesep fs) ps"
    using assms by (simp add: write_translate_line)
  have b: "universal_newlines (concat (map (\<lambda>p. p @ os_linesep fs) ps))
      = concat (map (\<lambda>p. p @ [CHR 0x0A]) ps)"
    using assms sep by (intro universal_newlines_lines) auto
  have c: "file_lines [] (concat (map (\<lambda>p. p @ [CHR 0x0A]) ps))
      = map (\<lambda>p. p @ [CHR 0x0A]) ps"
    using assms by (intro file_lines_lines) auto
  have d: "map rstrip_newline (map (\<lambda>p. p @ [CHR 0x0A]) ps) = ps"
    using assms by (simp add: rstrip_newline_line map_idI)
  show ?thesis
    by (simp only: a b c d)
qed

text \<open>
  The claim C3 as it is written fails for a preset that has no line feed but a carriage
  return: the carriage return is read back as a line end and is lost.
\<close>

theorem preset_carriage_return_counterexample:
  "CHR 0x0A \<notin> set (''a'' @ [CHR 0x0D]) \<and>
   save_then_load empty_filesystem [''a'' @ [CHR 0x0D]] ''p.preset''
     = Inr (Inr True, [''a'']) \<and>
   [''a''] \<noteq> [''a'' @ [CHR 0x0D]]"
  by (simp add: save_then_load_def save_presets_to_file_def load_presets_from_file_def
      empty_filesystem_def os_linesep_def write_translate_def rstrip_newline_def)

text \<open>
  C3, amended.  For a non-empty preset list whose strings contain neither a line feed nor
  a carriage return, and a path that can be written, \<^verbatim>\<open>save_presets_to_file\<close> followed by
  \<^verbatim>\<open>load_presets_from_file\<close> on the same path yields the same list in the same order.
  \<^verbatim>\<open>load_presets_from_file\<close> on a path that does not exist raises an \<^verbatim>\<open>Exception\<close>
  whose text is that of the not-found error after the load-failed prefix, and the list in
  memory is as before.
\<close>

theorem preset_file_roundtrip:
  "(presets \<noteq> [] \<and> (\<forall>p \<in> set presets. CHR 0x0A \<notin> set p \<and> CHR 0x0D \<notin> set p) \<and>
    write_failure fs file_path = None \<longrightarrow>
      save_then_load fs presets file_path = Inr (Inr True, presets)) \<and>
   (files fs file_path = None \<longrightarrow>
      load_presets_from_file fs presets file_path
        = (Inl (Exc Exception (load_failed_prefix @ file_missing_prefix @ file_path)), presets))"
  by (simp add: save_then_load_def save_presets_to_file_def load_presets_from_file_def read_back)

theorem preset_file_roundtrip_witness:
  "[''a'', ''b'', ''c''] \<noteq> ([] :: presets) \<and>
   CHR 0x0A \<notin> set (concat [''a'', ''b'', ''c'']) \<and>
   CHR 0x0D \<notin> set (concat [''a'', ''b'', ''c'']) \<and>
   write_failure empty_filesystem ''p.preset'' = None \<and>
   save_then_load empty_filesystem [''a'', ''b'', ''c''] ''p.preset''
     = Inr (Inr True, [''a'', ''b'', ''c'']) \<and>
   files empty_filesystem ''q.preset'' = None \<and>
   load_presets_from_file empty_filesystem [''a'', ''b'', ''c''] ''q.preset''
     = (Inl (Exc Exception (load_failed_prefix @ file_missing_prefix @ ''q.preset'')),
        [''a'', ''b'', ''c''])"
proof -
  have h: "[''a'', ''b'', ''c''] \<noteq> ([] :: presets)"
      "\<forall>p \<in> set [''a'', ''b'', ''c'']. CHR 0x0A \<notin> set p \<and> CHR 0x0D \<notin> set p"
      "write_failure empty_filesystem ''p.preset'' = None"
      "files empty_filesystem ''q.preset'' = None"
    by (simp_all add: empty_filesystem_def)
  have c: "CHR 0x0A \<notin> set (concat [''a'', ''b'', ''c''])"
      "CHR 0x0D \<notin> set (concat [''a'', ''b'', ''c''])"
    by simp_all
  from preset_file_roundtrip [of "[''a'', ''b'', ''c'']" empty_filesystem "''p.preset''"] h
  have a: "save_then_load empty_filesystem [''a'', ''b'', ''c''] ''p.preset''
      = Inr (Inr True, [''a'', ''b'', ''c''])"
    by blast
  from preset_file_roundtrip [of "[''a'', ''b'', ''c'']" empty_filesystem "''q.preset''"] h
  have b: "load_presets_from_file empty_filesystem [''a'', ''b'', ''c''] ''q.preset''
     = (Inl (Exc Exception (load_failed_prefix @ file_missing_prefix @ ''q.preset'')),
        [''a'', ''b'', ''c''])"
    by blast
  from h(1,3,4) c a b show ?thesis
    by blast
qed

section \<open>Properties of the receive-display option handlers\<close>






text \<open>The worker after each of the two handlers.\<close>

lemma redraw_handlers_worker:
  "serial_thread (snd (toggle_hex_receive sur self))
     = map_option (\<lambda>t. t\<lparr>hex_mode := hex_receive_check self\<rparr>) (serial_thread self)"
  "serial_thread (snd (on_receive_encoding_changed sur self))
     = map_option (\<lambda>t. t\<lparr>encoding := get_encoding_value (receive_encoding_combo self)\<rparr>)
         (serial_thread self)"
  by (cases "serial_thread self";
      simp add: toggle_hex_receive_def on_receive_encoding_changed_def refresh_display_def
        update_settings_def split_beta)+











lemma char_of_examples:
  "char_of (79 :: nat) = CHR ''O''" "char_of (75 :: nat) = CHR ''K''"
  by code_simp+

lemma decode_examples:
  "decode_ascii ''replace'' [0x4F, 0x4B] = Inr ''OK''"
  "decode_ascii ''replace'' [0x80] = Inr [CHR 0xEF, CHR 0xBF, CHR 0xBD]"
  "decode_ascii ''strict'' [0x4F, 0x4B] = Inr ''OK''"
  "decode_ascii ''strict'' [0x80]
     = Inl (Exc UnicodeError ''ascii codec can not decode byte: ordinal not in range(128)'')"
  by (simp_all add: char_of_examples)








section \<open>Properties of the file-send thread\<close>

lemmas double_arithmetic =
  progress_def true_divide_def times_100_def int_of_double_def nearest_double_def
  double_exponent_def round_half_even_def bitlen.simps Let_def

lemma progress_examples:
  "progress 1024 2048 = 50"
  "progress 2048 2048 = 100"
  "progress 4 2 = 200"
  by (simp_all add: double_arithmetic)

text \<open>
  The division and the multiplication round: 29696 of 102400 bytes are 29 per cent, and
  the progress emitted is 28, as \<^verbatim>\<open>int((29696 / 102400) * 100)\<close> is in Python.
\<close>

lemma progress_rounding_example: "progress 29696 102400 = 28"
  by (simp add: double_arithmetic)

lemma progress_size_0: "progress sent_size 0 = 100"
  by (simp add: progress_def)

text \<open>
  The run of the specification: a file of 2048 bytes, chunks of 1024 bytes, not in
  hexadecimal mode, nothing disturbing the run.  There are exactly two progress signals,
  50 and 100, and the final signal reports success and 2048 bytes.
\<close>

lemma run_2048_bytes:
  assumes "length content = 2048"
  shows "run (undisturbed content) False codec 1024
     = [progress_updated 50, progress_updated 100, finished True (sent_text 2048)]"
proof -
  let ?sur = "undisturbed content"
  have env: "running ?sur t" "port_open ?sur t" "write_raises ?sur t = None"
      "get_file_size ?sur = 2048" "open_outcome ?sur = Inr content" for t
    using assms by (simp_all add: undisturbed_def running_def get_file_size_def)
  have r1: "file_read 1024 content = Inr (take 1024 content, drop 1024 content)"
    by (simp add: file_read_def)
  have r2: "file_read 1024 (drop 1024 content) = Inr (drop 1024 content, [])"
    using assms by (simp add: file_read_def)
  have r3: "file_read 1024 [] = Inr ([], [])"
    by (simp add: file_read_def)
  have n: "take 1024 content \<noteq> []" "drop 1024 content \<noteq> []" "content \<noteq> []"
      "length (take 1024 content) = 1024" "length (drop 1024 content) = 1024"
    using assms by auto
  have l3: "send_loop ?sur False codec 1024 2048 t [] 2048 = ([], Inr (2048, Suc t))" for t
    by (subst send_loop.simps) (simp add: env r3)
  have l2: "send_loop ?sur False codec 1024 2048 t (drop 1024 content) 1024
      = ([progress_updated 100], Inr (2048, Suc (Suc t)))" for t
    by (subst send_loop.simps) (simp add: env r2 n l3 progress_examples assms)
  have l1: "send_loop ?sur False codec 1024 2048 0 content 0
      = ([progress_updated 50, progress_updated 100], Inr (2048, Suc (Suc (Suc 0))))"
    by (subst send_loop.simps) (simp add: env r1 n l2 progress_examples assms)
  show ?thesis
    by (simp add: run_def env l1)
qed

text \<open>Stopping the thread after the first chunk gives the cancellation text instead.\<close>

lemma run_2048_bytes_cancelled:
  assumes "length content = 2048"
  shows "run ((undisturbed content)\<lparr>stop_seen_at := Some 1\<rparr>) False codec 1024
     = [progress_updated 50, finished False cancelled_text]"
proof -
  let ?sur = "(undisturbed content)\<lparr>stop_seen_at := Some (Suc 0)\<rparr>"
  have env: "running ?sur 0" "\<not> running ?sur (Suc t)" "port_open ?sur t"
      "write_raises ?sur t = None" "get_file_size ?sur = 2048" "open_outcome ?sur = Inr content"
      "port_open (undisturbed content) t" "write_raises (undisturbed content) t = None" for t
    using assms by (simp_all add: undisturbed_def running_def get_file_size_def)
  have r1: "file_read 1024 content = Inr (take 1024 content, drop 1024 content)"
    by (simp add: file_read_def)
  have n: "take 1024 content \<noteq> []" "content \<noteq> []" "length (take 1024 content) = 1024"
    using assms by auto
  have l2: "send_loop ?sur False codec 1024 2048 (Suc 0) (drop 1024 content) 1024
      = ([], Inr (1024, Suc (Suc 0)))"
    by (subst send_loop.simps) (simp add: env)
  have l1: "send_loop ?sur False codec 1024 2048 0 content 0
      = ([progress_updated 50], Inr (1024, Suc (Suc 0)))"
    by (subst send_loop.simps) (simp add: env r1 n l2 progress_examples assms)
  show ?thesis
    by (simp add: run_def env(2,5,6) l1)
qed

text \<open>
  When the size reported is 0 every progress value computed is 100
  (\<open>progress_size_0\<close>); an empty file gives no progress signal at all.
\<close>

lemma run_empty_file:
  assumes "- 1 \<le> chunk_size"
  shows "run (undisturbed []) hex codec chunk_size = [finished True (sent_text 0)]"
proof -
  have "send_loop (undisturbed []) hex codec chunk_size 0 0 [] 0 = ([], Inr (0, 1))"
    using assms by (subst send_loop.simps) (simp add: undisturbed_def running_def file_read_def)
  then show ?thesis
    by (simp add: run_def undisturbed_def running_def get_file_size_def)
qed

text \<open>
  A chunk size below -1 makes the first \<^verbatim>\<open>read\<close> raise, and the run ends with the
  failure text, whatever the file holds.
\<close>

lemma run_negative_chunk_size:
  assumes "chunk_size < - 1"
  shows "run (undisturbed content) hex codec chunk_size
     = [finished False (failed_text read_length_error)]"
proof -
  have "send_loop (undisturbed content) hex codec chunk_size (length content) 0 content 0
      = ([], Inl read_length_error)"
    using assms by (subst send_loop.simps) (simp add: undisturbed_def running_def file_read_def)
  then show ?thesis
    by (simp add: run_def undisturbed_def get_file_size_def)
qed

text \<open>
  C1.  In hexadecimal mode the count \<^verbatim>\<open>sent_size\<close> grows by the length of the encoded
  hexadecimal text, two bytes for every byte of the file, while \<^verbatim>\<open>file_size\<close> is the size
  of the file: for a file of the two bytes 41 42 the only progress value emitted is 200,
  outside the range 0 to 100, and the final signal reports 4 bytes.
\<close>

theorem run_hex_mode_progress_200:
  "run (undisturbed [0x41, 0x42]) True ''utf-8'' 1024
     = [progress_updated 200, finished True (sent_text 4)]"
proof -
  let ?sur = "undisturbed [0x41, 0x42]"
  have env: "running ?sur t" "port_open ?sur t" "write_raises ?sur t = None"
      "get_file_size ?sur = 2" "open_outcome ?sur = Inr [0x41, 0x42]" for t
    by (simp_all add: undisturbed_def running_def get_file_size_def)
  have enc: "\<exists>chunk. str_encode ?sur ''utf-8'' ''strict'' (bytes_hex [0x41, 0x42]) = Inr chunk
      \<and> length chunk = 4"
    by (simp add: undisturbed_def encode_ascii_def bytes_hex_def)
  then obtain chunk where chunk:
      "str_encode ?sur ''utf-8'' ''strict'' (bytes_hex [0x41, 0x42]) = Inr chunk" "length chunk = 4"
    by blast
  have l2: "send_loop ?sur True ''utf-8'' 1024 2 (Suc 0) [] 4 = ([], Inr (4, Suc (Suc 0)))"
    by (subst send_loop.simps) (simp add: env file_read_def)
  have l1: "send_loop ?sur True ''utf-8'' 1024 2 0 [0x41, 0x42] 0
      = ([progress_updated 200], Inr (4, Suc (Suc 0)))"
    by (subst send_loop.simps) (simp add: env file_read_def chunk l2 progress_examples)
  show ?thesis
    by (simp add: run_def env l1)
qed

section \<open>The range of the progress value outside hexadecimal mode\<close>

text \<open>
  When the count of bytes sent does not exceed the size of the file, the progress value
  lies between 0 and 100: rounding cannot carry the quotient beyond 1 or the product
  beyond 100, since both are multiples of the unit in the last place.
\<close>

lemma bitlen_0: "bitlen 0 = 0"
  by (simp add: bitlen.simps)

lemma bitlen_pos: "0 < n \<Longrightarrow> bitlen n = Suc (bitlen (n div 2))"
  by (subst bitlen.simps) simp

lemma bitlen_mono: "a \<le> b \<Longrightarrow> bitlen a \<le> bitlen b"
proof (induction b arbitrary: a rule: bitlen.induct)
  case (1 b)
  show ?case
  proof (cases "a = 0")
    case True
    then show ?thesis by (simp add: bitlen_0)
  next
    case False
    with "1.prems" have b: "b \<noteq> 0" by auto
    from "1.prems" have "a div 2 \<le> b div 2"
      by (rule div_le_mono)
    with b have "bitlen (a div 2) \<le> bitlen (b div 2)"
      by (rule "1.IH")
    with False b show ?thesis
      by (simp add: bitlen_pos)
  qed
qed

lemma bitlen_double: "0 < n \<Longrightarrow> bitlen (2 * n) = Suc (bitlen n)"
  by (subst bitlen.simps) simp

lemma bitlen_shift: "0 < n \<Longrightarrow> bitlen (n * 2 ^ k) = bitlen n + k"
proof (induction k)
  case 0
  then show ?case by simp
next
  case (Suc k)
  then have "bitlen (2 * (n * 2 ^ k)) = Suc (bitlen (n * 2 ^ k))"
    by (intro bitlen_double) simp
  with Suc show ?case
    by (simp add: mult.commute mult.left_commute)
qed

lemma round_half_even_le:
  assumes "a \<le> N * b" and "0 < b"
  shows "round_half_even a b \<le> N"
proof -
  from assms have q: "a div b \<le> N"
    by (metis div_le_mono div_mult_self_is_m)
  show ?thesis
  proof (cases "a div b = N")
    case True
    have "a = (a div b) * b + a mod b"
      by simp
    with True assms(1) have "a mod b = 0"
      by (metis add.right_neutral add_le_cancel_left le_zero_eq)
    with True assms(2) show ?thesis
      by (simp add: round_half_even_def Let_def)
  next
    case False
    with q have "a div b + 1 \<le> N"
      by simp
    with q show ?thesis
      by (simp add: round_half_even_def Let_def)
  qed
qed

lemma double_exponent_le:
  "double_exponent num den \<le> int (bitlen num) - int (bitlen den)"
  by (simp add: double_exponent_def Let_def)

lemma nearest_double_le:
  assumes "num \<le> K * den" and "0 < den"
    and "int (bitlen num) - int (bitlen den) < 52"
  shows "\<exists>m j. nearest_double num den = (m, - int j) \<and> m \<le> K * 2 ^ j"
proof (cases "num = 0")
  case True
  then have "nearest_double num den = (0, - int 0)"
    by (simp add: nearest_double_def)
  then show ?thesis
    by (metis zero_le)
next
  case False
  define j where "j = nat (- (double_exponent num den - 52))"
  from assms(3) have neg: "\<not> 0 \<le> double_exponent num den - 52"
    using double_exponent_le [of num den] by simp
  then have sh: "double_exponent num den - 52 = - int j"
    by (simp add: j_def)
  from False neg have nd: "nearest_double num den = (round_half_even (num * 2 ^ j) den, - int j)"
    unfolding nearest_double_def Let_def j_def [symmetric] sh by simp
  from assms(1) have "num * 2 ^ j \<le> (K * 2 ^ j) * den"
    by (metis mult.assoc mult.commute mult_le_mono1)
  then have "round_half_even (num * 2 ^ j) den \<le> K * 2 ^ j"
    using assms(2) by (rule round_half_even_le)
  with nd show ?thesis
    by blast
qed

lemma progress_bounds:
  assumes "sent_size \<le> file_size"
  shows "0 \<le> progress sent_size file_size \<and> progress sent_size file_size \<le> 100"
proof (cases "file_size = 0")
  case True
  then show ?thesis by (simp add: progress_def)
next
  case False
  then have fpos: "0 < file_size" by simp
  have "int (bitlen sent_size) - int (bitlen file_size) < 52"
    using bitlen_mono [OF assms] by simp
  with assms fpos obtain m j where q: "nearest_double sent_size file_size = (m, - int j)"
      "m \<le> 1 * 2 ^ j"
    using nearest_double_le [of sent_size 1 file_size] by auto
  have "\<exists>m' j'. times_100 (m, - int j) = (m', - int j') \<and> m' \<le> 100 * 2 ^ j'"
  proof (cases "j = 0")
    case True
    with q(2) have "m * 100 * 2 ^ nat 0 \<le> 100 * 1"
      by simp
    moreover have "int (bitlen (m * 100 * 2 ^ nat 0)) - int (bitlen 1) < 52"
    proof -
      from True q(2) have "m * 100 * 2 ^ nat 0 \<le> 1 * 2 ^ 7"
        by simp
      then have "bitlen (m * 100 * 2 ^ nat 0) \<le> bitlen (1 * 2 ^ 7)"
        by (rule bitlen_mono)
      also have "\<dots> = bitlen 1 + 7"
        by (rule bitlen_shift) simp
      finally show ?thesis by simp
    qed
    ultimately have "\<exists>m' j'. nearest_double (m * 100 * 2 ^ nat 0) 1 = (m', - int j')
        \<and> m' \<le> 100 * 2 ^ j'"
      by (intro nearest_double_le) simp_all
    with True show ?thesis
      by (simp add: times_100_def)
  next
    case False
    from q(2) have le: "m * 100 \<le> 100 * 2 ^ j"
      by simp
    have "int (bitlen (m * 100)) - int (bitlen (2 ^ j)) < 52"
    proof -
      from q(2) have "m * 100 \<le> (2 ^ j) * 2 ^ 7"
        by simp
      then have "bitlen (m * 100) \<le> bitlen ((2 ^ j) * 2 ^ 7)"
        by (rule bitlen_mono)
      also have "\<dots> = bitlen (2 ^ j) + 7"
        by (rule bitlen_shift) simp
      finally show ?thesis by simp
    qed
    with le have "\<exists>m' j'. nearest_double (m * 100) (2 ^ j) = (m', - int j')
        \<and> m' \<le> 100 * 2 ^ j'"
      by (intro nearest_double_le) simp_all
    with False show ?thesis
      by (simp add: times_100_def)
  qed
  then obtain m' j' where t: "times_100 (m, - int j) = (m', - int j')" "m' \<le> 100 * 2 ^ j'"
    by blast
  have "int_of_double (m', - int j') \<le> 100"
  proof (cases "j' = 0")
    case True
    with t(2) show ?thesis by (simp add: int_of_double_def)
  next
    case False
    from t(2) have "m' div 2 ^ j' \<le> 100"
      by (metis div_le_mono div_mult_self_is_m zero_less_numeral zero_less_power)
    with False show ?thesis
      by (simp add: int_of_double_def)
  qed
  moreover have "0 \<le> int_of_double (m', - int j')"
    by (simp add: int_of_double_def)
  ultimately show ?thesis
    using fpos q(1) t(1) by (simp add: progress_def true_divide_def)
qed

text \<open>
  Outside hexadecimal mode the chunk written is the chunk read, so the count never exceeds
  the size of a file that has the size reported, and every progress value of the run is in
  the range 0 to 100.
\<close>

lemma file_read_lengths:
  "file_read chunk_size unread = Inr (bs, rest) \<Longrightarrow> length bs + length rest = length unread"
  by (auto simp: file_read_def min_def split: if_splits)

lemma send_loop_progress_range:
  "\<not> hex \<Longrightarrow> sent_size + length unread \<le> file_size \<Longrightarrow>
   progress_updated p \<in> set (fst (send_loop sur hex codec chunk_size file_size t unread sent_size))
     \<Longrightarrow> 0 \<le> p \<and> p \<le> 100"
proof (induction sur hex codec chunk_size file_size t unread sent_size rule: send_loop.induct)
  case (1 sur hex codec chunk_size file_size t unread sent_size)
  show ?case
  proof (cases "file_read chunk_size unread")
    case (Inl e)
    with "1.prems"(3) show ?thesis
      by (subst (asm) send_loop.simps) (auto split: if_splits)
  next
    case (Inr r)
    obtain bs rest where r: "r = (bs, rest)"
      by (cases r)
    with Inr have read: "file_read chunk_size unread = Inr (bs, rest)"
      by simp
    note lens = file_read_lengths [OF read]
    show ?thesis
    proof (cases "running sur t \<and> port_open sur t \<and> bs \<noteq> [] \<and> write_raises sur t = None")
      case False
      with "1.prems"(1,3) read show ?thesis
        by (subst (asm) send_loop.simps) (auto split: option.splits if_splits)
    next
      case True
      with "1.prems"(1) read
      have unfold: "send_loop sur hex codec chunk_size file_size t unread sent_size
          = (progress_updated (progress (sent_size + length bs) file_size)
               # fst (send_loop sur hex codec chunk_size file_size (Suc t) rest
                       (sent_size + length bs)),
             snd (send_loop sur hex codec chunk_size file_size (Suc t) rest
                       (sent_size + length bs)))"
        by (subst send_loop.simps) (simp add: split_beta)
      from "1.prems"(2) lens have bound: "sent_size + length bs \<le> file_size"
          "(sent_size + length bs) + length rest \<le> file_size"
        by simp_all
      from "1.prems"(3) unfold consider "p = progress (sent_size + length bs) file_size"
        | "progress_updated p \<in> set (fst (send_loop sur hex codec chunk_size file_size (Suc t)
              rest (sent_size + length bs)))"
        by auto
      then show ?thesis
      proof cases
        case 1
        with bound(1) show ?thesis
          using progress_bounds by blast
      next
        case 2
        have "(if hex then str_encode sur codec ''strict'' (bytes_hex bs) else Inr bs) = Inr bs"
          using "1.prems"(1) by simp
        with True "1.prems"(1) bound(2) 2 Inr r show ?thesis
          by (intro "1.IH" [of r bs rest bs]) simp_all
      qed
    qed
  qed
qed

lemma run_progress_range:
  assumes "open_outcome sur = Inr content" and "getsize sur = Inr (length content)"
    and "progress_updated p \<in> set (run sur False codec chunk_size)"
  shows "0 \<le> p \<and> p \<le> 100"
proof -
  obtain signals outcome where l:
      "send_loop sur False codec chunk_size (length content) 0 content 0 = (signals, outcome)"
    by (cases "send_loop sur False codec chunk_size (length content) 0 content 0")
  with assms have "progress_updated p \<in> set signals"
    by (auto simp: run_def get_file_size_def split: sum.splits if_splits)
  with l show ?thesis
    using send_loop_progress_range [of False 0 content "length content" p sur codec chunk_size 0]
    by simp
qed

end
